theory Spec2Isabelle
  imports Complex_Main
begin

section \<open>Numbers and game constants\<close>

text \<open>
  Every TypeScript \<open>number\<close> of \<open>ArcadeShooter.tsx\<close> is modelled as a real number:
  the arithmetic of the game is read exactly, without the rounding of IEEE doubles.
  Loop counters and array lengths are natural numbers, the integer results of
  \<open>Math.floor\<close> and \<open>Math.ceil\<close> are integers.
\<close>

type_synonym number = real

definition CANVAS_WIDTH :: number where "CANVAS_WIDTH = 600"
definition CANVAS_HEIGHT :: number where "CANVAS_HEIGHT = 700"
definition PLAYER_WIDTH :: number where "PLAYER_WIDTH = 40"
definition PLAYER_HEIGHT :: number where "PLAYER_HEIGHT = 30"
definition PLAYER_SPEED :: number where "PLAYER_SPEED = 8"
definition BULLET_SPEED :: number where "BULLET_SPEED = 12"
definition BULLET_WIDTH :: number where "BULLET_WIDTH = 4"
definition BULLET_HEIGHT :: number where "BULLET_HEIGHT = 12"
definition ENEMY_WIDTH :: number where "ENEMY_WIDTH = 36"
definition ENEMY_HEIGHT :: number where "ENEMY_HEIGHT = 28"
definition SHOOT_COOLDOWN :: number where "SHOOT_COOLDOWN = 150"
definition INITIAL_LIVES :: number where "INITIAL_LIVES = 3"

section \<open>Data model\<close>

text \<open>
  The interfaces of the source become records. \<open>Bullet\<close> and \<open>Enemy\<close> extend
  \<open>Entity\<close>; the element type of \<open>generateWave\<close>, \<open>Omit<Enemy, 'active' | 'hitFlash'>\<close>,
  is the record \<open>enemySpec\<close>, which \<open>enemy\<close> extends by the two omitted fields.
  Field names shared by several interfaces are written qualified
  (\<open>entity.x\<close>, \<open>explosion.x\<close>, \<open>bullet.active\<close>, \<open>enemy.active\<close>, \<open>displayState.score\<close>).
\<close>

record explosion =
  x :: number
  y :: number
  radius :: number
  maxRadius :: number
  alpha :: number
  color :: string

record entity =
  x :: number
  y :: number
  width :: number
  height :: number

record bullet = entity +
  active :: bool

record enemySpec = entity +
  type :: number
  health :: number
  speed :: number
  direction :: number

record enemy = enemySpec +
  active :: bool
  hitFlash :: number

text \<open>The React display state (the copy of the counters shown by the HUD).\<close>

record displayState =
  score :: number
  lives :: number
  level :: number
  gameOver :: bool
  levelComplete :: bool
  started :: bool

record gameState =
  player :: entity
  bullets :: "bullet list"
  enemies :: "enemy list"
  explosions :: "explosion list"
  score :: number
  lives :: number
  level :: number
  gameOver :: bool
  levelComplete :: bool
  levelTransition :: bool
  transitionTimer :: number
  paused :: bool
  started :: bool

text \<open>
  The mutable cells of the component: the game state behind \<open>gameStateRef\<close>, the set of
  held keys, the time of the last shot and the display state. The canvas and the pending
  animation frame do not influence the simulation and are left out, as is all drawing.
\<close>

record arcadeShooter =
  gameStateRef :: gameState
  keysRef :: "string set"
  lastShootRef :: number
  displayState :: displayState

section \<open>Wave generator\<close>

text \<open>The object pushed by the inner loop body of \<open>generateWave\<close>.\<close>

definition waveEnemy :: "number \<Rightarrow> number \<Rightarrow> nat \<Rightarrow> nat \<Rightarrow> enemySpec" where
  "waveEnemy lvl startX row col =
     \<lparr> entity.x = startX + real col * 60,
       entity.y = 60 + real row * 50,
       width = ENEMY_WIDTH,
       height = ENEMY_HEIGHT,
       type = real (row mod 3),
       health = 1 + of_int \<lfloor>lvl / 4\<rfloor>,
       speed = 1 + lvl * 0.15,
       direction = 1 \<rparr>"

text \<open>
  The inner \<open>for (col ...)\<close> loop: it stops at \<open>cols\<close> or, by \<open>break\<close>, as soon as
  \<open>baseEnemies\<close> entries have been pushed.
\<close>

function waveCols ::
  "number \<Rightarrow> int \<Rightarrow> int \<Rightarrow> number \<Rightarrow> nat \<Rightarrow> nat \<Rightarrow> enemySpec list \<Rightarrow> enemySpec list" where
  "waveCols lvl baseEnemies cols startX row col es =
     (if int col < cols then
        (if int (length es) \<ge> baseEnemies then es
         else waveCols lvl baseEnemies cols startX row (Suc col)
                (es @ [waveEnemy lvl startX row col]))
      else es)"
  by pat_completeness auto
termination
  by (relation "measure (\<lambda>(lvl, baseEnemies, cols, startX, row, col, es). nat cols - col)") auto

text \<open>The outer \<open>for (row ...)\<close> loop. The \<open>break\<close> leaves the inner loop only.\<close>

function waveRows ::
  "number \<Rightarrow> int \<Rightarrow> int \<Rightarrow> int \<Rightarrow> number \<Rightarrow> nat \<Rightarrow> enemySpec list \<Rightarrow> enemySpec list" where
  "waveRows lvl baseEnemies rows cols startX row es =
     (if int row < rows then
        waveRows lvl baseEnemies rows cols startX (Suc row)
          (waveCols lvl baseEnemies cols startX row 0 es)
      else es)"
  by pat_completeness auto
termination
  by (relation "measure (\<lambda>(lvl, baseEnemies, rows, cols, startX, row, es). nat rows - row)") auto

definition waveBase :: "number \<Rightarrow> int" where
  "waveBase lvl = 4 + \<lfloor>lvl * 1.5\<rfloor>"

definition waveRowCount :: "number \<Rightarrow> int" where
  "waveRowCount lvl = min (2 + \<lfloor>lvl / 3\<rfloor>) 4"

definition waveColCount :: "number \<Rightarrow> int" where
  "waveColCount lvl = \<lceil>of_int (waveBase lvl) / (of_int (waveRowCount lvl) :: real)\<rceil>"

definition waveStartX :: "number \<Rightarrow> number" where
  "waveStartX lvl = (CANVAS_WIDTH - (of_int (waveColCount lvl) - 1) * 60) / 2"

text \<open>
  \<open>generateWave\<close>: \<open>waveBase\<close>, \<open>waveRowCount\<close>, \<open>waveColCount\<close> and \<open>waveStartX\<close> are
  the constants \<open>baseEnemies\<close>, \<open>rows\<close>, \<open>cols\<close> and \<open>startX\<close> of the source. When
  \<open>rows\<close> is not positive the loops do not run and \<open>cols\<close> is not used.
\<close>

definition generateWave :: "number \<Rightarrow> enemySpec list" where
  "generateWave lvl =
     waveRows lvl (waveBase lvl) (waveRowCount lvl) (waveColCount lvl) (waveStartX lvl) 0 []"

section \<open>Component state and entry points\<close>

text \<open>The initial values of \<open>gameStateRef\<close>, \<open>keysRef\<close>, \<open>lastShootRef\<close> and \<open>displayState\<close>.\<close>

definition initialGameState :: gameState where
  "initialGameState =
     \<lparr> player = \<lparr> entity.x = CANVAS_WIDTH / 2 - PLAYER_WIDTH / 2,
                    entity.y = CANVAS_HEIGHT - PLAYER_HEIGHT - 20,
                    width = PLAYER_WIDTH,
                    height = PLAYER_HEIGHT \<rparr>,
       bullets = [],
       enemies = [],
       explosions = [],
       gameState.score = 0,
       gameState.lives = INITIAL_LIVES,
       gameState.level = 1,
       gameState.gameOver = False,
       gameState.levelComplete = False,
       levelTransition = False,
       transitionTimer = 0,
       paused = False,
       gameState.started = False \<rparr>"

definition initialShooter :: arcadeShooter where
  "initialShooter =
     \<lparr> gameStateRef = initialGameState,
       keysRef = {},
       lastShootRef = 0,
       displayState = \<lparr> displayState.score = 0,
                        displayState.lives = INITIAL_LIVES,
                        displayState.level = 1,
                        displayState.gameOver = False,
                        displayState.levelComplete = False,
                        displayState.started = False \<rparr> \<rparr>"

text \<open>The object spread \<open>{ ...e, active: true, hitFlash: 0 }\<close> of \<open>initWave\<close>.\<close>

definition spawnEnemy :: "enemySpec \<Rightarrow> enemy" where
  "spawnEnemy e =
     \<lparr> entity.x = entity.x e, entity.y = entity.y e, width = width e, height = height e,
       type = type e, health = health e, speed = speed e, direction = direction e,
       enemy.active = True, hitFlash = 0 \<rparr>"

definition initWave :: "number \<Rightarrow> arcadeShooter \<Rightarrow> arcadeShooter" where
  "initWave lvl sys =
     sys\<lparr>gameStateRef := (gameStateRef sys)
            \<lparr> enemies := map spawnEnemy (generateWave lvl),
              gameState.levelComplete := False,
              levelTransition := False \<rparr>\<rparr>"

definition resetGame :: "arcadeShooter \<Rightarrow> arcadeShooter" where
  "resetGame sys =
     (let st = gameStateRef sys;
          st1 = st\<lparr> player := (player st)\<lparr>entity.x := CANVAS_WIDTH / 2 - PLAYER_WIDTH / 2\<rparr>,
                    bullets := [],
                    explosions := [],
                    gameState.score := 0,
                    gameState.lives := INITIAL_LIVES,
                    gameState.level := 1,
                    gameState.gameOver := False,
                    gameState.levelComplete := False,
                    levelTransition := False,
                    gameState.started := True \<rparr>;
          sys1 = initWave 1 (sys\<lparr>gameStateRef := st1\<rparr>)
      in sys1\<lparr>displayState :=
                 \<lparr> displayState.score = 0,
                   displayState.lives = INITIAL_LIVES,
                   displayState.level = 1,
                   displayState.gameOver = False,
                   displayState.levelComplete = False,
                   displayState.started = True \<rparr>\<rparr>)"

definition spawnExplosion ::
  "number \<Rightarrow> number \<Rightarrow> number \<Rightarrow> string \<Rightarrow> arcadeShooter \<Rightarrow> arcadeShooter" where
  "spawnExplosion ex ey size' col sys =
     sys\<lparr>gameStateRef := (gameStateRef sys)
            \<lparr> explosions := explosions (gameStateRef sys) @
                 [\<lparr> explosion.x = ex, explosion.y = ey, radius = 5, maxRadius = size',
                    alpha = 1, color = col \<rparr>] \<rparr>\<rparr>"

definition checkCollision :: "'a entity_scheme \<Rightarrow> 'b entity_scheme \<Rightarrow> bool" where
  "checkCollision a b \<longleftrightarrow>
     entity.x a < entity.x b + width b \<and>
     entity.x a + width a > entity.x b \<and>
     entity.y a < entity.y b + height b \<and>
     entity.y a + height a > entity.y b"

section \<open>One frame of the game loop\<close>

subsection \<open>Input\<close>

text \<open>The three \<open>if\<close> statements under \<open>// Handle input\<close>, in source order.\<close>

definition inputLeft :: "arcadeShooter \<Rightarrow> arcadeShooter" where
  "inputLeft sys =
     (if ''ArrowLeft'' \<in> keysRef sys \<or> ''a'' \<in> keysRef sys then
        sys\<lparr>gameStateRef := (gameStateRef sys)
               \<lparr>player := (player (gameStateRef sys))
                  \<lparr>entity.x := max 10 (entity.x (player (gameStateRef sys)) - PLAYER_SPEED)\<rparr>\<rparr>\<rparr>
      else sys)"

definition inputRight :: "arcadeShooter \<Rightarrow> arcadeShooter" where
  "inputRight sys =
     (if ''ArrowRight'' \<in> keysRef sys \<or> ''d'' \<in> keysRef sys then
        sys\<lparr>gameStateRef := (gameStateRef sys)
               \<lparr>player := (player (gameStateRef sys))
                  \<lparr>entity.x := min (CANVAS_WIDTH - PLAYER_WIDTH - 10)
                                   (entity.x (player (gameStateRef sys)) + PLAYER_SPEED)\<rparr>\<rparr>\<rparr>
      else sys)"

definition inputFire :: "number \<Rightarrow> arcadeShooter \<Rightarrow> arcadeShooter" where
  "inputFire now sys =
     (if '' '' \<in> keysRef sys \<and> now - lastShootRef sys > SHOOT_COOLDOWN then
        sys\<lparr>gameStateRef := (gameStateRef sys)
               \<lparr>bullets := bullets (gameStateRef sys) @
                  [\<lparr> entity.x = entity.x (player (gameStateRef sys)) + PLAYER_WIDTH / 2
                                   - BULLET_WIDTH / 2,
                     entity.y = entity.y (player (gameStateRef sys)),
                     width = BULLET_WIDTH,
                     height = BULLET_HEIGHT,
                     bullet.active = True \<rparr>]\<rparr>,
             lastShootRef := now\<rparr>
      else sys)"

definition handleInput :: "number \<Rightarrow> arcadeShooter \<Rightarrow> arcadeShooter" where
  "handleInput now sys = inputFire now (inputRight (inputLeft sys))"

subsection \<open>Bullets, enemies and explosions\<close>

text \<open>
  \<open>state.bullets.filter\<close>: the callback moves each bullet up and keeps it when it is
  still on the field and active.
\<close>

fun moveBullets :: "bullet list \<Rightarrow> bullet list" where
  "moveBullets [] = []"
| "moveBullets (b # bs) =
     (let b1 = b\<lparr>entity.y := entity.y b - BULLET_SPEED\<rparr>
      in if entity.y b1 > - BULLET_HEIGHT \<and> bullet.active b1
         then b1 # moveBullets bs else moveBullets bs)"

definition updateBullets :: "arcadeShooter \<Rightarrow> arcadeShooter" where
  "updateBullets sys =
     sys\<lparr>gameStateRef := (gameStateRef sys)
            \<lparr>bullets := moveBullets (bullets (gameStateRef sys))\<rparr>\<rparr>"

text \<open>
  The first \<open>forEach\<close> under \<open>// Update enemies\<close>. The flag \<open>hitEdge\<close> is threaded
  through the iteration; the result is the updated array and the final flag.
\<close>

fun advanceEnemies :: "enemy list \<Rightarrow> bool \<Rightarrow> enemy list \<times> bool" where
  "advanceEnemies [] hitEdge = ([], hitEdge)"
| "advanceEnemies (e # es) hitEdge =
     (if \<not> enemy.active e then
        (let (es', h) = advanceEnemies es hitEdge in (e # es', h))
      else
        (let e1 = e\<lparr>entity.x := entity.x e + speed e * direction e\<rparr>;
             e2 = (if hitFlash e1 > 0 then e1\<lparr>hitFlash := hitFlash e1 - 0.1\<rparr> else e1);
             h1 = (if entity.x e2 \<le> 10 \<or> entity.x e2 \<ge> CANVAS_WIDTH - ENEMY_WIDTH - 10
                   then True else hitEdge);
             (es', h) = advanceEnemies es h1
         in (e2 # es', h)))"

text \<open>The second \<open>forEach\<close>, run when \<open>hitEdge\<close> is set.\<close>

fun bounceEnemies :: "enemy list \<Rightarrow> enemy list" where
  "bounceEnemies [] = []"
| "bounceEnemies (e # es) =
     (if enemy.active e
      then e\<lparr>direction := direction e * (-1), entity.y := entity.y e + 20\<rparr> # bounceEnemies es
      else e # bounceEnemies es)"

definition moveEnemies :: "enemy list \<Rightarrow> enemy list" where
  "moveEnemies es =
     (let (es1, hitEdge) = advanceEnemies es False
      in if hitEdge then bounceEnemies es1 else es1)"

definition updateEnemies :: "arcadeShooter \<Rightarrow> arcadeShooter" where
  "updateEnemies sys =
     sys\<lparr>gameStateRef := (gameStateRef sys)
            \<lparr>enemies := moveEnemies (enemies (gameStateRef sys))\<rparr>\<rparr>"

text \<open>\<open>state.explosions.filter\<close> under \<open>// Update explosions\<close>.\<close>

fun growExplosions :: "explosion list \<Rightarrow> explosion list" where
  "growExplosions [] = []"
| "growExplosions (ex # exs) =
     (let ex1 = ex\<lparr>radius := radius ex + 2\<rparr>;
          ex2 = ex1\<lparr>alpha := alpha ex1 - 0.04\<rparr>
      in if alpha ex2 > 0 then ex2 # growExplosions exs else growExplosions exs)"

definition updateExplosions :: "arcadeShooter \<Rightarrow> arcadeShooter" where
  "updateExplosions sys =
     sys\<lparr>gameStateRef := (gameStateRef sys)
            \<lparr>explosions := growExplosions (explosions (gameStateRef sys))\<rparr>\<rparr>"

subsection \<open>Bullet-enemy collision\<close>

text \<open>
  The body of the inner \<open>forEach\<close>: one bullet against one enemy. The bullet and the
  enemy are mutated in place in the source; here the updated bullet and enemy are returned
  together with the component state (score, explosions, display). The arrays
  \<open>state.bullets\<close> and \<open>state.enemies\<close> are written back when the iteration is over;
  the callbacks never read them.
\<close>

definition hitEnemy :: "bullet \<Rightarrow> enemy \<Rightarrow> arcadeShooter \<Rightarrow> bullet \<times> enemy \<times> arcadeShooter" where
  "hitEnemy b e sys =
     (if \<not> enemy.active e then (b, e, sys)
      else if checkCollision b e then
        (let b1 = b\<lparr>bullet.active := False\<rparr>;
             e1 = e\<lparr>health := health e - 1\<rparr>;
             e2 = e1\<lparr>hitFlash := 1\<rparr>
         in if health e2 \<le> 0 then
              (let e3 = e2\<lparr>enemy.active := False\<rparr>;
                   s1 = sys\<lparr>gameStateRef := (gameStateRef sys)
                          \<lparr>gameState.score := gameState.score (gameStateRef sys)
                             + 100 * gameState.level (gameStateRef sys)\<rparr>\<rparr>;
                   s2 = spawnExplosion (entity.x e3 + ENEMY_WIDTH / 2)
                          (entity.y e3 + ENEMY_HEIGHT / 2) 35 ''#ff00ff'' s1;
                   s3 = s2\<lparr>displayState := (displayState s2)
                          \<lparr>displayState.score := gameState.score (gameStateRef s2)\<rparr>\<rparr>
               in (b1, e3, s3))
            else (b1, e2, spawnExplosion (entity.x b1) (entity.y b1) 15 ''#ffff00'' sys))
      else (b, e, sys))"

text \<open>The inner \<open>state.enemies.forEach\<close> for one bullet.\<close>

fun bulletVsEnemies ::
  "bullet \<Rightarrow> enemy list \<Rightarrow> arcadeShooter \<Rightarrow> bullet \<times> enemy list \<times> arcadeShooter" where
  "bulletVsEnemies b [] sys = (b, [], sys)"
| "bulletVsEnemies b (e # es) sys =
     (let (b1, e1, s1) = hitEnemy b e sys;
          (b2, es2, s2) = bulletVsEnemies b1 es s1
      in (b2, e1 # es2, s2))"

text \<open>The outer \<open>state.bullets.forEach\<close>; an inactive bullet is skipped.\<close>

fun bulletsVsEnemies ::
  "bullet list \<Rightarrow> enemy list \<Rightarrow> arcadeShooter \<Rightarrow> bullet list \<times> enemy list \<times> arcadeShooter" where
  "bulletsVsEnemies [] es sys = ([], es, sys)"
| "bulletsVsEnemies (b # bs) es sys =
     (if \<not> bullet.active b then
        (let (bs2, es2, s2) = bulletsVsEnemies bs es sys in (b # bs2, es2, s2))
      else
        (let (b1, es1, s1) = bulletVsEnemies b es sys;
             (bs2, es2, s2) = bulletsVsEnemies bs es1 s1
         in (b1 # bs2, es2, s2)))"

definition bulletEnemyCollision :: "arcadeShooter \<Rightarrow> arcadeShooter" where
  "bulletEnemyCollision sys =
     (let (bs, es, s1) =
            bulletsVsEnemies (bullets (gameStateRef sys)) (enemies (gameStateRef sys)) sys
      in s1\<lparr>gameStateRef := (gameStateRef s1)\<lparr>bullets := bs, enemies := es\<rparr>\<rparr>)"

subsection \<open>Player-enemy collision\<close>

text \<open>The body of the \<open>forEach\<close> under \<open>// Player-enemy collision\<close>, for one enemy.\<close>

definition hitPlayer :: "enemy \<Rightarrow> arcadeShooter \<Rightarrow> enemy \<times> arcadeShooter" where
  "hitPlayer e sys =
     (if \<not> enemy.active e then (e, sys)
      else if checkCollision (player (gameStateRef sys)) e \<or> entity.y e > CANVAS_HEIGHT - 100 then
        (let e1 = (if entity.y e > CANVAS_HEIGHT - 100 then e\<lparr>enemy.active := False\<rparr> else e)
         in if checkCollision (player (gameStateRef sys)) e1 then
              (let e2 = e1\<lparr>enemy.active := False\<rparr>;
                   s1 = sys\<lparr>gameStateRef := (gameStateRef sys)
                          \<lparr>gameState.lives := gameState.lives (gameStateRef sys) - 1\<rparr>\<rparr>;
                   s2 = spawnExplosion
                          (entity.x (player (gameStateRef s1)) + PLAYER_WIDTH / 2)
                          (entity.y (player (gameStateRef s1)) + PLAYER_HEIGHT / 2)
                          50 ''#ff0044'' s1;
                   s3 = s2\<lparr>displayState := (displayState s2)
                          \<lparr>displayState.lives := gameState.lives (gameStateRef s2)\<rparr>\<rparr>
               in if gameState.lives (gameStateRef s3) \<le> 0 then
                    (e2, s3\<lparr>gameStateRef := (gameStateRef s3)\<lparr>gameState.gameOver := True\<rparr>,
                            displayState := (displayState s3)\<lparr>displayState.gameOver := True\<rparr>\<rparr>)
                  else (e2, s3))
            else (e1, sys))
      else (e, sys))"

fun playerVsEnemies :: "enemy list \<Rightarrow> arcadeShooter \<Rightarrow> enemy list \<times> arcadeShooter" where
  "playerVsEnemies [] sys = ([], sys)"
| "playerVsEnemies (e # es) sys =
     (let (e1, s1) = hitPlayer e sys;
          (es2, s2) = playerVsEnemies es s1
      in (e1 # es2, s2))"

definition playerEnemyCollision :: "arcadeShooter \<Rightarrow> arcadeShooter" where
  "playerEnemyCollision sys =
     (let (es, s1) = playerVsEnemies (enemies (gameStateRef sys)) sys
      in s1\<lparr>gameStateRef := (gameStateRef s1)\<lparr>enemies := es\<rparr>\<rparr>)"

subsection \<open>Wave completion and level transition\<close>

definition checkWaveComplete :: "arcadeShooter \<Rightarrow> arcadeShooter" where
  "checkWaveComplete sys =
     (let st = gameStateRef sys;
          activeEnemies = length (filter enemy.active (enemies st))
      in if activeEnemies = 0 \<and> \<not> gameState.levelComplete st \<and> \<not> levelTransition st then
           sys\<lparr>gameStateRef := st\<lparr>gameState.levelComplete := True,
                                  levelTransition := True,
                                  transitionTimer := 2000\<rparr>,
               displayState := (displayState sys)\<lparr>displayState.levelComplete := True\<rparr>\<rparr>
         else sys)"

text \<open>The branch \<open>if (state.levelTransition)\<close> of the game loop.\<close>

definition transitionFrame :: "arcadeShooter \<Rightarrow> arcadeShooter" where
  "transitionFrame sys =
     (let s1 = sys\<lparr>gameStateRef := (gameStateRef sys)
                 \<lparr>transitionTimer := transitionTimer (gameStateRef sys) - 16\<rparr>\<rparr>
      in if transitionTimer (gameStateRef s1) \<le> 0 then
           (let s2 = s1\<lparr>gameStateRef := (gameStateRef s1)
                       \<lparr>gameState.level := gameState.level (gameStateRef s1) + 1\<rparr>\<rparr>;
                s3 = initWave (gameState.level (gameStateRef s2)) s2
            in s3\<lparr>displayState := (displayState s3)
                   \<lparr>displayState.level := gameState.level (gameStateRef s3),
                    displayState.levelComplete := False\<rparr>\<rparr>)
         else s1)"

subsection \<open>The game loop\<close>

text \<open>The part of \<open>gameLoop\<close> after the three early returns, without the drawing.\<close>

definition playingFrame :: "number \<Rightarrow> arcadeShooter \<Rightarrow> arcadeShooter" where
  "playingFrame now sys =
     updateExplosions (checkWaveComplete (playerEnemyCollision (bulletEnemyCollision
       (updateEnemies (updateBullets (handleInput now sys))))))"

text \<open>\<open>gameLoop\<close>, with \<open>Date.now()\<close> as the argument \<open>now\<close>.\<close>

definition gameLoop :: "number \<Rightarrow> arcadeShooter \<Rightarrow> arcadeShooter" where
  "gameLoop now sys =
     (if \<not> gameState.started (gameStateRef sys) then sys
      else if gameState.gameOver (gameStateRef sys) then sys
      else if levelTransition (gameStateRef sys) then transitionFrame sys
      else playingFrame now sys)"

text \<open>
  The mode of the specification, read off the order in which \<open>gameLoop\<close> tests the flags.
\<close>

datatype mode = NotStarted | Playing | LevelTransition | GameOver

definition mode :: "arcadeShooter \<Rightarrow> mode" where
  "mode sys =
     (if \<not> gameState.started (gameStateRef sys) then NotStarted
      else if gameState.gameOver (gameStateRef sys) then GameOver
      else if levelTransition (gameStateRef sys) then LevelTransition
      else Playing)"

section \<open>Keyboard handlers and runs\<close>

definition handleKeyDown :: "string \<Rightarrow> arcadeShooter \<Rightarrow> arcadeShooter" where
  "handleKeyDown key sys =
     (let s1 = sys\<lparr>keysRef := insert key (keysRef sys)\<rparr>;
          s2 = (if key = '' '' \<and> \<not> gameState.started (gameStateRef s1) then resetGame s1 else s1)
      in if key = ''r'' \<and> gameState.gameOver (gameStateRef s2) then resetGame s2 else s2)"

definition handleKeyUp :: "string \<Rightarrow> arcadeShooter \<Rightarrow> arcadeShooter" where
  "handleKeyUp key sys = sys\<lparr>keysRef := keysRef sys - {key}\<rparr>"

text \<open>
  What can happen to the mounted component: an animation frame at a given time, a key
  press or a key release. A run applies a sequence of events in order.
\<close>

datatype event = Frame number | KeyDown string | KeyUp string

fun step :: "event \<Rightarrow> arcadeShooter \<Rightarrow> arcadeShooter" where
  "step (Frame now) sys = gameLoop now sys"
| "step (KeyDown key) sys = handleKeyDown key sys"
| "step (KeyUp key) sys = handleKeyUp key sys"

fun run :: "event list \<Rightarrow> arcadeShooter \<Rightarrow> arcadeShooter" where
  "run [] sys = sys"
| "run (ev # evs) sys = run evs (step ev sys)"

section \<open>The bullet-enemy pass in the words of the specification\<close>

text \<open>
  The loops as the specification words them, for comparison with the loops translated from
  the source. Section 4.2, step 4 says that a bullet deactivated by one collision is not
  tested against further enemies in the same tick, "enforced by checking
  \<open>bullet.active\<close> before each pair test"; the source has no such check. The functions
  \<open>specBulletVsEnemies\<close> to \<open>specGameLoop\<close> are the loops of the source with that one
  check added in front of every pair test; everything else is shared with the functions
  translated from the source. They are compared with \<open>bulletVsEnemies\<close> to
  \<open>gameLoop\<close> below.
\<close>

fun specBulletVsEnemies ::
  "bullet \<Rightarrow> enemy list \<Rightarrow> arcadeShooter \<Rightarrow> bullet \<times> enemy list \<times> arcadeShooter" where
  "specBulletVsEnemies b [] sys = (b, [], sys)"
| "specBulletVsEnemies b (e # es) sys =
     (let (b1, e1, s1) = (if \<not> bullet.active b then (b, e, sys) else hitEnemy b e sys);
          (b2, es2, s2) = specBulletVsEnemies b1 es s1
      in (b2, e1 # es2, s2))"

fun specBulletsVsEnemies ::
  "bullet list \<Rightarrow> enemy list \<Rightarrow> arcadeShooter \<Rightarrow> bullet list \<times> enemy list \<times> arcadeShooter" where
  "specBulletsVsEnemies [] es sys = ([], es, sys)"
| "specBulletsVsEnemies (b # bs) es sys =
     (if \<not> bullet.active b then
        (let (bs2, es2, s2) = specBulletsVsEnemies bs es sys in (b # bs2, es2, s2))
      else
        (let (b1, es1, s1) = specBulletVsEnemies b es sys;
             (bs2, es2, s2) = specBulletsVsEnemies bs es1 s1
         in (b1 # bs2, es2, s2)))"

definition specBulletEnemyCollision :: "arcadeShooter \<Rightarrow> arcadeShooter" where
  "specBulletEnemyCollision sys =
     (let (bs, es, s1) =
            specBulletsVsEnemies (bullets (gameStateRef sys)) (enemies (gameStateRef sys)) sys
      in s1\<lparr>gameStateRef := (gameStateRef s1)\<lparr>bullets := bs, enemies := es\<rparr>\<rparr>)"

definition specPlayingFrame :: "number \<Rightarrow> arcadeShooter \<Rightarrow> arcadeShooter" where
  "specPlayingFrame now sys =
     updateExplosions (checkWaveComplete (playerEnemyCollision (specBulletEnemyCollision
       (updateEnemies (updateBullets (handleInput now sys))))))"

definition specGameLoop :: "number \<Rightarrow> arcadeShooter \<Rightarrow> arcadeShooter" where
  "specGameLoop now sys =
     (if \<not> gameState.started (gameStateRef sys) then sys
      else if gameState.gameOver (gameStateRef sys) then sys
      else if levelTransition (gameStateRef sys) then transitionFrame sys
      else specPlayingFrame now sys)"

section \<open>Notions used in the proofs\<close>

text \<open>
  The grid that the two loops of \<open>generateWave\<close> enumerate: rows \<open>row..<rows\<close>, each with
  the columns \<open>0..<cols\<close>, in row-major order.
\<close>

definition waveGrid :: "number \<Rightarrow> number \<Rightarrow> nat \<Rightarrow> nat \<Rightarrow> nat \<Rightarrow> enemySpec list" where
  "waveGrid lvl sx cols row rows = concat (map (\<lambda>r. map (waveEnemy lvl sx r) [0..<cols]) [row..<rows])"

text \<open>
  Frame conditions of the two collision passes. \<open>untouched\<close> lists the cells that
  neither pass writes, \<open>enemyKept\<close> the fields of an enemy that neither pass changes
  (an enemy may only become inactive). \<open>scoring\<close> is what the bullet pass may do to the
  counters, \<open>wounding\<close> what the player pass may do.
\<close>

definition untouched :: "arcadeShooter \<Rightarrow> arcadeShooter \<Rightarrow> bool" where
  "untouched s s' \<longleftrightarrow>
     player (gameStateRef s') = player (gameStateRef s) \<and>
     gameState.level (gameStateRef s') = gameState.level (gameStateRef s) \<and>
     gameState.levelComplete (gameStateRef s') = gameState.levelComplete (gameStateRef s) \<and>
     levelTransition (gameStateRef s') = levelTransition (gameStateRef s) \<and>
     transitionTimer (gameStateRef s') = transitionTimer (gameStateRef s) \<and>
     gameState.started (gameStateRef s') = gameState.started (gameStateRef s) \<and>
     paused (gameStateRef s') = paused (gameStateRef s) \<and>
     keysRef s' = keysRef s \<and>
     lastShootRef s' = lastShootRef s"

definition enemyKept :: "enemy \<Rightarrow> enemy \<Rightarrow> bool" where
  "enemyKept e e' \<longleftrightarrow>
     entity.x e' = entity.x e \<and> entity.y e' = entity.y e \<and>
     width e' = width e \<and> height e' = height e \<and>
     type e' = type e \<and> speed e' = speed e \<and> direction e' = direction e \<and>
     (enemy.active e' \<longrightarrow> enemy.active e)"

definition scoring :: "arcadeShooter \<Rightarrow> arcadeShooter \<Rightarrow> bool" where
  "scoring s s' \<longleftrightarrow>
     untouched s s' \<and>
     gameState.lives (gameStateRef s') = gameState.lives (gameStateRef s) \<and>
     gameState.gameOver (gameStateRef s') = gameState.gameOver (gameStateRef s) \<and>
     (0 \<le> gameState.level (gameStateRef s) \<longrightarrow>
        gameState.score (gameStateRef s) \<le> gameState.score (gameStateRef s'))"

definition wounding :: "arcadeShooter \<Rightarrow> arcadeShooter \<Rightarrow> bool" where
  "wounding s s' \<longleftrightarrow>
     untouched s s' \<and>
     gameState.score (gameStateRef s') = gameState.score (gameStateRef s) \<and>
     gameState.lives (gameStateRef s') \<le> gameState.lives (gameStateRef s) \<and>
     (gameState.gameOver (gameStateRef s) \<longrightarrow> gameState.gameOver (gameStateRef s')) \<and>
     (gameState.lives (gameStateRef s') < gameState.lives (gameStateRef s) \<and>
      gameState.lives (gameStateRef s') \<le> 0 \<longrightarrow> gameState.gameOver (gameStateRef s'))"

text \<open>
  The two outcomes of \<open>hitPlayer\<close> on an active enemy: without contact the enemy is
  removed once it is past the breach line (\<open>breach\<close>); with contact the player loses a life
  (\<open>loseLife\<close>).
\<close>

definition breach :: "enemy \<Rightarrow> enemy" where
  "breach e = (if enemy.active e \<and> entity.y e > CANVAS_HEIGHT - 100 then e\<lparr>enemy.active := False\<rparr> else e)"

definition loseLife :: "arcadeShooter \<Rightarrow> arcadeShooter" where
  "loseLife s =
     (let s1 = s\<lparr>gameStateRef := (gameStateRef s)
                  \<lparr>gameState.lives := gameState.lives (gameStateRef s) - 1\<rparr>\<rparr>;
          s2 = spawnExplosion
                 (entity.x (player (gameStateRef s1)) + PLAYER_WIDTH / 2)
                 (entity.y (player (gameStateRef s1)) + PLAYER_HEIGHT / 2)
                 50 ''#ff0044'' s1;
          s3 = s2\<lparr>displayState := (displayState s2)
                 \<lparr>displayState.lives := gameState.lives (gameStateRef s2)\<rparr>\<rparr>
      in if gameState.lives (gameStateRef s3) \<le> 0 then
           s3\<lparr>gameStateRef := (gameStateRef s3)\<lparr>gameState.gameOver := True\<rparr>,
              displayState := (displayState s3)\<lparr>displayState.gameOver := True\<rparr>\<rparr>
         else s3)"

text \<open>
  The effect of the enemy-advance step on one enemy (\<open>advanced\<close>), the edge test of that
  step (\<open>onEdge\<close>) and the effect of the bounce on one enemy (\<open>bounce\<close>).
\<close>

definition advanced :: "enemy \<Rightarrow> enemy \<Rightarrow> bool" where
  "advanced e e' \<longleftrightarrow>
     entity.y e' = entity.y e \<and> height e' = height e \<and> width e' = width e \<and>
     direction e' = direction e \<and> enemy.active e' = enemy.active e \<and>
     entity.x e' = (if enemy.active e then entity.x e + speed e * direction e else entity.x e)"

definition onEdge :: "enemy \<Rightarrow> bool" where
  "onEdge e \<longleftrightarrow> enemy.active e \<and> (entity.x e \<le> 10 \<or> entity.x e \<ge> CANVAS_WIDTH - ENEMY_WIDTH - 10)"

definition bounce :: "enemy \<Rightarrow> enemy" where
  "bounce e = (if enemy.active e
               then e\<lparr>direction := direction e * (-1), entity.y := entity.y e + 20\<rparr> else e)"

text \<open>
  The invariant of the running game. \<open>enemiesWithin ymax\<close> says that every enemy has the
  height of a generated enemy and that no active enemy is below \<open>ymax\<close>; \<open>settled\<close>
  adds the position of the player and the counters. \<open>consistent\<close> is the invariant between
  frames, with the breach line as the bound.
\<close>

definition enemiesWithin :: "number \<Rightarrow> enemy list \<Rightarrow> bool" where
  "enemiesWithin ymax es \<longleftrightarrow>
     list_all (\<lambda>e. height e = ENEMY_HEIGHT \<and> (enemy.active e \<longrightarrow> entity.y e \<le> ymax)) es"

definition settled :: "number \<Rightarrow> arcadeShooter \<Rightarrow> bool" where
  "settled ymax s \<longleftrightarrow>
     entity.y (player (gameStateRef s)) = CANVAS_HEIGHT - PLAYER_HEIGHT - 20 \<and>
     10 \<le> entity.x (player (gameStateRef s)) \<and>
     entity.x (player (gameStateRef s)) \<le> CANVAS_WIDTH - PLAYER_WIDTH - 10 \<and>
     enemiesWithin ymax (enemies (gameStateRef s)) \<and>
     gameState.lives (gameStateRef s) = INITIAL_LIVES \<and>
     0 \<le> gameState.score (gameStateRef s) \<and>
     1 \<le> gameState.level (gameStateRef s) \<and>
     \<not> gameState.gameOver (gameStateRef s) \<and>
     gameState.levelComplete (gameStateRef s) = levelTransition (gameStateRef s)"

definition consistent :: "arcadeShooter \<Rightarrow> bool" where
  "consistent s \<longleftrightarrow> settled (CANVAS_HEIGHT - 100) s"

text \<open>
  The state of a playing frame when the wave-complete check is reached, and two
  projections of the component state.
\<close>

definition beforeWaveCheck :: "number \<Rightarrow> arcadeShooter \<Rightarrow> arcadeShooter" where
  "beforeWaveCheck now s =
     playerEnemyCollision (bulletEnemyCollision (updateEnemies (updateBullets (handleInput now s))))"

definition session :: "arcadeShooter \<Rightarrow> number \<times> bool \<times> bool \<times> number \<times> bool" where
  "session s = (gameState.level (gameStateRef s), gameState.levelComplete (gameStateRef s),
     levelTransition (gameStateRef s), transitionTimer (gameStateRef s),
     gameState.started (gameStateRef s))"

definition vitals :: "arcadeShooter \<Rightarrow> number \<times> bool \<times> number" where
  "vitals s = (gameState.lives (gameStateRef s), gameState.gameOver (gameStateRef s),
               gameState.score (gameStateRef s))"

definition playerX :: "arcadeShooter \<Rightarrow> number" where
  "playerX s = entity.x (player (gameStateRef s))"

text \<open>
  Counting hits. \<open>decremented es es'\<close> is the number of positions at which the health in
  \<open>es'\<close> is lower than in \<open>es\<close>. \<open>hitCounts\<close> follows the outer loop of the source pass
  and records, for every bullet in turn, how many enemies had their health decremented by
  the inner loop of that bullet (0 for a bullet that is skipped). \<open>beforeBulletPass\<close> is the
  state of a playing frame when the bullet-enemy pass starts.
\<close>

definition decremented :: "enemy list \<Rightarrow> enemy list \<Rightarrow> nat" where
  "decremented es es' = length (filter (\<lambda>(e, e'). health e' < health e) (zip es es'))"

fun hitCounts :: "bullet list \<Rightarrow> enemy list \<Rightarrow> arcadeShooter \<Rightarrow> nat list" where
  "hitCounts [] es sys = []"
| "hitCounts (b # bs) es sys =
     (if \<not> bullet.active b then 0 # hitCounts bs es sys
      else
        (let (b1, es1, s1) = bulletVsEnemies b es sys
         in decremented es es1 # hitCounts bs es1 s1))"

definition beforeBulletPass :: "number \<Rightarrow> arcadeShooter \<Rightarrow> arcadeShooter" where
  "beforeBulletPass now sys = updateEnemies (updateBullets (handleInput now sys))"

text \<open>
  The invariant behind the hit count. Bullets and enemies keep the sizes they are created
  with. Two active enemies are \<open>inFormation\<close> when they move at the same speed in the
  same direction and are at least 60 apart in \<open>x\<close> or at least 50 apart in \<open>y\<close>, the
  spacing of the generated grid; \<open>formation\<close> asks this of every pair of enemies.
  \<open>advanceEnemy\<close> is the advance step on one enemy.
\<close>

definition bulletSized :: "bullet \<Rightarrow> bool" where
  "bulletSized b \<longleftrightarrow> width b = BULLET_WIDTH \<and> height b = BULLET_HEIGHT"

definition enemySized :: "enemy \<Rightarrow> bool" where
  "enemySized e \<longleftrightarrow> width e = ENEMY_WIDTH \<and> height e = ENEMY_HEIGHT"

definition inFormation :: "enemy \<Rightarrow> enemy \<Rightarrow> bool" where
  "inFormation e e' \<longleftrightarrow>
     (enemy.active e \<and> enemy.active e' \<longrightarrow>
        speed e = speed e' \<and> direction e = direction e' \<and>
        (60 \<le> \<bar>entity.x e - entity.x e'\<bar> \<or> 50 \<le> \<bar>entity.y e - entity.y e'\<bar>))"

definition formation :: "arcadeShooter \<Rightarrow> bool" where
  "formation s \<longleftrightarrow>
     list_all bulletSized (bullets (gameStateRef s)) \<and>
     list_all enemySized (enemies (gameStateRef s)) \<and>
     sorted_wrt inFormation (enemies (gameStateRef s))"

definition advanceEnemy :: "enemy \<Rightarrow> enemy" where
  "advanceEnemy e =
     (if \<not> enemy.active e then e
      else (let e1 = e\<lparr>entity.x := entity.x e + speed e * direction e\<rparr>
            in if hitFlash e1 > 0 then e1\<lparr>hitFlash := hitFlash e1 - 0.1\<rparr> else e1))"

text \<open>
  Concrete states on which the results below are evaluated: a started game with no
  enemies; one bullet under two overlapping enemies; both arrow keys held; an enemy placed
  on the player, the states after \<open>n\<close> such collisions, and a last-life state; the last
  frame of a level transition; a formation whose first enemy is about to reach the left edge.
\<close>

definition startedShooter :: arcadeShooter where
  "startedShooter = initialShooter\<lparr>gameStateRef := initialGameState\<lparr>gameState.started := True\<rparr>\<rparr>"

definition piercingState :: arcadeShooter where
  "piercingState = startedShooter\<lparr>gameStateRef := (gameStateRef startedShooter)
     \<lparr> bullets := [\<lparr> entity.x = 100, entity.y = 112, width = BULLET_WIDTH, height = BULLET_HEIGHT,
                      bullet.active = True \<rparr>],
       enemies := [\<lparr> entity.x = 90, entity.y = 95, width = ENEMY_WIDTH, height = ENEMY_HEIGHT,
                      type = 0, health = 2, speed = 1, direction = 1,
                      enemy.active = True, hitFlash = 0 \<rparr>,
                    \<lparr> entity.x = 95, entity.y = 95, width = ENEMY_WIDTH, height = ENEMY_HEIGHT,
                      type = 0, health = 2, speed = 1, direction = 1,
                      enemy.active = True, hitFlash = 0 \<rparr>] \<rparr>\<rparr>"

definition bothHeldState :: arcadeShooter where
  "bothHeldState = startedShooter\<lparr>keysRef := {''ArrowLeft'', ''ArrowRight''}\<rparr>"

definition rammingEnemy :: enemy where
  "rammingEnemy = \<lparr> entity.x = 280, entity.y = 640, width = ENEMY_WIDTH, height = ENEMY_HEIGHT,
                    type = 0, health = 1, speed = 1, direction = 1,
                    enemy.active = True, hitFlash = 0 \<rparr>"

fun rammed :: "nat \<Rightarrow> arcadeShooter" where
  "rammed 0 = startedShooter"
| "rammed (Suc n) = snd (hitPlayer rammingEnemy (rammed n))"

definition lastLifeState :: arcadeShooter where
  "lastLifeState = startedShooter\<lparr>gameStateRef := (gameStateRef startedShooter)
     \<lparr> enemies := [rammingEnemy], gameState.lives := 1 \<rparr>\<rparr>"

definition lastTransitionFrame :: arcadeShooter where
  "lastTransitionFrame = startedShooter\<lparr>gameStateRef := (gameStateRef startedShooter)
     \<lparr> gameState.levelComplete := True, levelTransition := True, transitionTimer := 16 \<rparr>\<rparr>"

definition bounceState :: arcadeShooter where
  "bounceState = startedShooter\<lparr>gameStateRef := (gameStateRef startedShooter)
     \<lparr> enemies := [\<lparr> entity.x = 10.5, entity.y = 60, width = ENEMY_WIDTH, height = ENEMY_HEIGHT,
                      type = 0, health = 1, speed = 1, direction = -1,
                      enemy.active = True, hitFlash = 0 \<rparr>,
                    \<lparr> entity.x = 300, entity.y = 110, width = ENEMY_WIDTH, height = ENEMY_HEIGHT,
                      type = 1, health = 1, speed = 1, direction = -1,
                      enemy.active = True, hitFlash = 0 \<rparr>] \<rparr>\<rparr>"

text \<open>
  A run in which a bullet reaches an enemy: the space key starts the game and stays held,
  the first frame at time 1000 fires, and the bullet flies for 42 frames. \<open>flight k\<close> is
  the state after \<open>k\<close> of these frames.
\<close>

definition flight :: "nat \<Rightarrow> arcadeShooter" where
  "flight k =
     \<lparr> gameStateRef =
         \<lparr> player = \<lparr> entity.x = 280, entity.y = 650, width = 40, height = 30 \<rparr>,
           bullets = [\<lparr> entity.x = 298, entity.y = 650 - 12 * real k, width = 4, height = 12,
                        bullet.active = True \<rparr>],
           enemies = map (\<lambda>e. e\<lparr>entity.x := entity.x e + 1.15 * real k\<rparr>)
                       (map spawnEnemy (generateWave 1)),
           explosions = [],
           gameState.score = 0,
           gameState.lives = 3,
           gameState.level = 1,
           gameState.gameOver = False,
           gameState.levelComplete = False,
           levelTransition = False,
           transitionTimer = 0,
           paused = False,
           gameState.started = True \<rparr>,
       keysRef = {'' ''},
       lastShootRef = 1000,
       displayState = \<lparr> displayState.score = 0, displayState.lives = 3, displayState.level = 1,
                        displayState.gameOver = False, displayState.levelComplete = False,
                        displayState.started = True \<rparr> \<rparr>"

definition firstHitRun :: "event list" where
  "firstHitRun = KeyDown '' '' # replicate 42 (Frame 1000)"

section \<open>Supporting lemmas\<close>

lemmas game_constants =
  CANVAS_WIDTH_def CANVAS_HEIGHT_def PLAYER_WIDTH_def PLAYER_HEIGHT_def PLAYER_SPEED_def
  BULLET_SPEED_def BULLET_WIDTH_def BULLET_HEIGHT_def ENEMY_WIDTH_def ENEMY_HEIGHT_def
  SHOOT_COOLDOWN_def INITIAL_LIVES_def

lemmas frame_defs =
  gameLoop_def playingFrame_def handleInput_def inputLeft_def inputRight_def inputFire_def
  updateBullets_def updateEnemies_def moveEnemies_def bulletEnemyCollision_def hitEnemy_def
  playerEnemyCollision_def hitPlayer_def checkWaveComplete_def updateExplosions_def
  spawnExplosion_def checkCollision_def Let_def

lemmas start_defs = startedShooter_def initialShooter_def initialGameState_def

lemmas run_defs =
  initialShooter_def initialGameState_def handleKeyDown_def handleKeyUp_def resetGame_def
  initWave_def frame_defs game_constants

declare waveCols.simps [simp del] waveRows.simps [simp del]

subsection \<open>The wave generator in closed form\<close>

lemma waveCols_closed:
  "waveCols lvl base cols sx row col es =
     es @ take (nat (base - int (length es))) (map (waveEnemy lvl sx row) [col..<nat cols])"
proof (induction lvl base cols sx row col es rule: waveCols.induct)
  case (1 lvl base cols sx row col es)
  show ?case
  proof (cases "int col < cols")
    case False
    then show ?thesis by (simp add: waveCols.simps)
  next
    case inside: True
    show ?thesis
    proof (cases "base \<le> int (length es)")
      case True
      with inside show ?thesis by (simp add: waveCols.simps)
    next
      case False
      have range: "[col..<nat cols] = col # [Suc col..<nat cols]"
        using inside by (simp add: upt_conv_Cons)
      have count: "nat (base - int (length es)) = Suc (nat (base - int (length es) - 1))"
        using False by simp
      have "waveCols lvl base cols sx row col es =
              waveCols lvl base cols sx row (Suc col) (es @ [waveEnemy lvl sx row col])"
        using inside False by (subst waveCols.simps) simp
      also have "\<dots> = (es @ [waveEnemy lvl sx row col]) @
              take (nat (base - int (length es) - 1)) (map (waveEnemy lvl sx row) [Suc col..<nat cols])"
        using "1.IH" [OF inside] False by (simp add: algebra_simps)
      finally show ?thesis
        by (simp only: range count list.map take_Suc_Cons append_Cons append_Nil append_assoc)
    qed
  qed
qed

lemma waveRows_closed:
  "waveRows lvl base rows cols sx row es =
     es @ take (nat (base - int (length es))) (waveGrid lvl sx (nat cols) row (nat rows))"
proof (induction lvl base rows cols sx row es rule: waveRows.induct)
  case (1 lvl base rows cols sx row es)
  show ?case
  proof (cases "int row < rows")
    case False
    then show ?thesis by (simp add: waveRows.simps waveGrid_def)
  next
    case True
    define n where "n = nat (base - int (length es))"
    define line where "line = map (waveEnemy lvl sx row) [0..<nat cols]"
    define es1 where "es1 = es @ take n line"
    have range: "[row..<nat rows] = row # [Suc row..<nat rows]"
      using True by (simp add: upt_conv_Cons)
    have grid: "waveGrid lvl sx (nat cols) row (nat rows) = line @ waveGrid lvl sx (nat cols) (Suc row) (nat rows)"
      by (simp add: waveGrid_def range line_def)
    have inner: "waveCols lvl base cols sx row 0 es = es1"
      by (simp add: waveCols_closed es1_def n_def line_def)
    have rest: "nat (base - int (length es1)) = n - length line"
      by (auto simp add: es1_def n_def min_def)
    have "waveRows lvl base rows cols sx row es = waveRows lvl base rows cols sx (Suc row) es1"
      using True inner by (subst waveRows.simps) simp
    also have "\<dots> = es1 @ take (n - length line) (waveGrid lvl sx (nat cols) (Suc row) (nat rows))"
      using "1.IH" [OF True] inner rest by simp
    finally show ?thesis
      by (simp add: grid es1_def n_def [symmetric])
  qed
qed

lemma generateWave_closed:
  "generateWave lvl =
     take (nat (waveBase lvl)) (waveGrid lvl (waveStartX lvl) (nat (waveColCount lvl)) 0 (nat (waveRowCount lvl)))"
  by (simp add: generateWave_def waveRows_closed)

lemma length_waveGrid: "length (waveGrid lvl sx cols 0 rows) = rows * cols"
  by (induction rows) (simp_all add: waveGrid_def)

lemma nth_waveGrid:
  "i < rows * cols \<Longrightarrow> waveGrid lvl sx cols 0 rows ! i = waveEnemy lvl sx (i div cols) (i mod cols)"
proof (induction rows)
  case 0
  then show ?case by simp
next
  case (Suc rows)
  have split: "waveGrid lvl sx cols 0 (Suc rows) =
                 waveGrid lvl sx cols 0 rows @ map (waveEnemy lvl sx rows) [0..<cols]"
    by (simp add: waveGrid_def)
  show ?case
  proof (cases "i < rows * cols")
    case True
    then show ?thesis using Suc.IH by (simp add: split nth_append length_waveGrid)
  next
    case False
    then have lo: "rows * cols \<le> i" by simp
    have hi: "i - rows * cols < cols" using Suc.prems lo by simp
    have pos: "0 < cols" using hi by simp
    have "i = rows * cols + (i - rows * cols)" using lo by simp
    then have d: "i div cols = rows" and m: "i mod cols = i - rows * cols"
      using hi pos
      by (metis add.commute add.right_neutral div_less div_mult_self1 less_numeral_extra(3) mult.commute,
          metis add.commute mod_less mod_mult_self1 mult.commute)
    show ?thesis using False hi by (simp add: split nth_append length_waveGrid d m)
  qed
qed

lemma waveBase_ge: "1 \<le> L \<Longrightarrow> 5 \<le> waveBase L"
proof -
  assume "1 \<le> L"
  then have "(1::real) \<le> L * 1.5" by simp
  then have "1 \<le> \<lfloor>L * 1.5\<rfloor>" by (simp add: le_floor_iff)
  then show ?thesis by (simp add: waveBase_def)
qed

lemma waveRowCount_range: "0 \<le> L \<Longrightarrow> 2 \<le> waveRowCount L \<and> waveRowCount L \<le> 4"
proof -
  assume "0 \<le> L"
  then have "0 \<le> \<lfloor>L / 3\<rfloor>" by (simp add: le_floor_iff)
  then show ?thesis by (simp add: waveRowCount_def)
qed

lemma waveColCount_div: "waveColCount L = - ((- waveBase L) div waveRowCount L)"
  by (simp add: waveColCount_def ceiling_divide_eq_div)

lemma wave_fits:
  assumes "1 \<le> L"
  shows "1 \<le> waveColCount L" and "waveBase L \<le> waveRowCount L * waveColCount L"
proof -
  have b: "5 \<le> waveBase L" using assms by (rule waveBase_ge)
  have r: "2 \<le> waveRowCount L \<and> waveRowCount L \<le> 4" using assms waveRowCount_range by simp
  then consider "waveRowCount L = 2" | "waveRowCount L = 3" | "waveRowCount L = 4" by linarith
  then show "1 \<le> waveColCount L" and "waveBase L \<le> waveRowCount L * waveColCount L"
    using b by (cases; simp add: waveColCount_div; presburger)+
qed

lemma length_generateWave:
  assumes "1 \<le> L"
  shows "length (generateWave L) = nat (waveBase L)"
proof -
  have "nat (waveBase L) \<le> nat (waveRowCount L * waveColCount L)"
    using wave_fits(2) [OF assms] by simp
  also have "\<dots> = nat (waveRowCount L) * nat (waveColCount L)"
    using waveRowCount_range [of L] assms by (simp add: nat_mult_distrib)
  finally show ?thesis
    by (simp add: generateWave_closed length_waveGrid)
qed

lemma nth_generateWave:
  assumes "1 \<le> L" and "i < length (generateWave L)"
  shows "generateWave L ! i =
           waveEnemy L (waveStartX L) (i div nat (waveColCount L)) (i mod nat (waveColCount L))"
    and "i div nat (waveColCount L) < nat (waveRowCount L)"
proof -
  have "nat (waveBase L) \<le> nat (waveRowCount L * waveColCount L)"
    using wave_fits(2) [OF assms(1)] by simp
  also have "\<dots> = nat (waveRowCount L) * nat (waveColCount L)"
    using waveRowCount_range [of L] assms(1) by (simp add: nat_mult_distrib)
  finally have fits: "nat (waveBase L) \<le> nat (waveRowCount L) * nat (waveColCount L)" .
  have i: "i < nat (waveBase L)" using assms by (simp add: length_generateWave)
  with fits have i': "i < nat (waveRowCount L) * nat (waveColCount L)" by simp
  show "generateWave L ! i =
           waveEnemy L (waveStartX L) (i div nat (waveColCount L)) (i mod nat (waveColCount L))"
    using i i' by (simp add: generateWave_closed nth_waveGrid)
  show "i div nat (waveColCount L) < nat (waveRowCount L)"
    using i' by (simp add: less_mult_imp_div_less)
qed

lemma wave_last_row:
  assumes "1 \<le> L"
  shows "(nat (waveBase L) - 1) div nat (waveColCount L) = nat (waveRowCount L) - 1"
proof -
  have b: "5 \<le> waveBase L" using assms by (rule waveBase_ge)
  have r: "2 \<le> waveRowCount L \<and> waveRowCount L \<le> 4" using assms waveRowCount_range by simp
  have r3: "8 \<le> waveBase L" if "waveRowCount L = 3"
  proof -
    from that have "\<lfloor>L / 3\<rfloor> = 1" by (simp add: waveRowCount_def)
    moreover have "of_int \<lfloor>L / 3\<rfloor> \<le> L / 3" by (rule of_int_floor_le)
    ultimately have "1 \<le> L / 3" by simp
    then have "(4::real) \<le> L * 1.5" by simp
    then have "4 \<le> \<lfloor>L * 1.5\<rfloor>" by (simp add: le_floor_iff)
    then show ?thesis by (simp add: waveBase_def)
  qed
  have r4: "13 \<le> waveBase L" if "waveRowCount L = 4"
  proof -
    define q where "q = \<lfloor>L / 3\<rfloor>"
    from that have "2 \<le> q" unfolding waveRowCount_def q_def [symmetric] by linarith
    moreover have "of_int q \<le> L / 3" unfolding q_def by (rule of_int_floor_le)
    ultimately have "2 \<le> L / 3" by linarith
    then have "(9::real) \<le> L * 1.5" by simp
    then have "9 \<le> \<lfloor>L * 1.5\<rfloor>" by (simp add: le_floor_iff)
    then show ?thesis by (simp add: waveBase_def)
  qed
  from r consider "waveRowCount L = 2" | "waveRowCount L = 3" | "waveRowCount L = 4" by linarith
  then have bounds: "(waveRowCount L - 1) * waveColCount L \<le> waveBase L - 1 \<and>
               waveBase L - 1 < waveRowCount L * waveColCount L \<and> 1 \<le> waveColCount L"
    using b r3 r4 by (cases; simp add: waveColCount_div; presburger)
  have rn: "nat (waveRowCount L) - 1 = nat (waveRowCount L - 1)"
    using r by arith
  have bn: "int (nat (waveBase L) - 1) = waveBase L - 1"
    using b by arith
  have lo: "nat (waveColCount L) * (nat (waveRowCount L) - 1) \<le> nat (waveBase L) - 1"
  proof -
    have "int (nat (waveColCount L) * nat (waveRowCount L - 1)) = (waveRowCount L - 1) * waveColCount L"
      using bounds r by simp
    then show ?thesis using bounds bn unfolding rn by linarith
  qed
  have rs: "Suc (nat (waveRowCount L) - 1) = nat (waveRowCount L)"
    using r by arith
  have hi: "nat (waveBase L) - 1 < nat (waveColCount L) * Suc (nat (waveRowCount L) - 1)"
  proof -
    have "int (nat (waveColCount L) * nat (waveRowCount L)) = waveRowCount L * waveColCount L"
      using bounds r by simp
    then show ?thesis using bounds bn unfolding rs by linarith
  qed
  from lo hi show ?thesis by (rule Euclidean_Rings.div_nat_eqI)
qed

lemma waveGrid_members:
  "e \<in> set (waveGrid lvl sx cols row rows) \<Longrightarrow> \<exists>r c. r < rows \<and> e = waveEnemy lvl sx r c"
  by (auto simp add: waveGrid_def)

lemma generateWave_members:
  assumes "e \<in> set (generateWave lvl)"
  shows "height e = ENEMY_HEIGHT \<and> entity.y e \<le> 210"
proof -
  from assms have "e \<in> set (waveGrid lvl (waveStartX lvl) (nat (waveColCount lvl)) 0 (nat (waveRowCount lvl)))"
    unfolding generateWave_closed by (rule in_set_takeD)
  then obtain r c where r: "r < nat (waveRowCount lvl)" and e: "e = waveEnemy lvl (waveStartX lvl) r c"
    using waveGrid_members by blast
  have "waveRowCount lvl \<le> 4" by (simp add: waveRowCount_def)
  with r have "r \<le> 3" by linarith
  then have "real r \<le> 3" by simp
  then show ?thesis by (simp add: e waveEnemy_def)
qed

subsection \<open>Modes and runs\<close>

lemma mode_LevelTransition_iff:
  "mode s = LevelTransition \<longleftrightarrow>
     gameState.started (gameStateRef s) \<and> \<not> gameState.gameOver (gameStateRef s) \<and>
     levelTransition (gameStateRef s)"
  by (simp add: mode_def)

lemma mode_Playing_iff:
  "mode s = Playing \<longleftrightarrow>
     gameState.started (gameStateRef s) \<and> \<not> gameState.gameOver (gameStateRef s) \<and>
     \<not> levelTransition (gameStateRef s)"
  by (simp add: mode_def)

lemma gameLoop_playing: "mode s = Playing \<Longrightarrow> gameLoop now s = playingFrame now s"
  by (simp add: mode_def gameLoop_def split: if_splits)

lemma gameLoop_transition: "mode s = LevelTransition \<Longrightarrow> gameLoop now s = transitionFrame s"
  by (simp add: mode_def gameLoop_def split: if_splits)

lemma run_append: "run (evs @ evs') s = run evs' (run evs s)"
  by (induction evs arbitrary: s) simp_all

subsection \<open>The bullet-enemy pass\<close>

lemma untouched_refl: "untouched s s"
  by (simp add: untouched_def)

lemma untouched_trans: "untouched s s1 \<Longrightarrow> untouched s1 s2 \<Longrightarrow> untouched s s2"
  by (simp add: untouched_def)

lemma enemyKept_refl: "enemyKept e e"
  by (simp add: enemyKept_def)

lemma enemyKept_trans: "enemyKept e e1 \<Longrightarrow> enemyKept e1 e2 \<Longrightarrow> enemyKept e e2"
  by (simp add: enemyKept_def)

lemma enemiesKept_refl: "list_all2 enemyKept es es"
  by (simp add: list_all2_refl enemyKept_refl)

lemma enemiesKept_trans:
  "list_all2 enemyKept es es1 \<Longrightarrow> list_all2 enemyKept es1 es2 \<Longrightarrow> list_all2 enemyKept es es2"
  using list_all2_trans [of enemyKept enemyKept enemyKept es es1 es2] enemyKept_trans by blast

lemma scoring_refl: "scoring s s"
  by (simp add: scoring_def untouched_refl)

lemma scoring_trans: "scoring s s1 \<Longrightarrow> scoring s1 s2 \<Longrightarrow> scoring s s2"
  by (auto simp add: scoring_def untouched_def)

lemma hitEnemy_kept:
  assumes "hitEnemy b e s = (b', e', s')"
  shows "scoring s s'" and "enemyKept e e'"
  using assms
  by (auto simp add: hitEnemy_def Let_def scoring_def untouched_def enemyKept_def spawnExplosion_def
           split: if_splits)

lemma bulletVsEnemies_kept:
  "bulletVsEnemies b es s = (b', es', s') \<Longrightarrow> scoring s s' \<and> list_all2 enemyKept es es'"
proof (induction es arbitrary: b s b' es' s')
  case Nil
  then show ?case by (simp add: scoring_refl)
next
  case (Cons e es)
  obtain b1 e1 s1 where h: "hitEnemy b e s = (b1, e1, s1)" by (cases "hitEnemy b e s") auto
  obtain b2 es2 s2 where r: "bulletVsEnemies b1 es s1 = (b2, es2, s2)"
    by (cases "bulletVsEnemies b1 es s1") auto
  from Cons.prems h r have res: "es' = e1 # es2" "s' = s2" by simp_all
  from Cons.IH [OF r] hitEnemy_kept [OF h] show ?case
    by (auto simp add: res intro: scoring_trans)
qed

lemma bulletsVsEnemies_kept:
  "bulletsVsEnemies bs es s = (bs', es', s') \<Longrightarrow> scoring s s' \<and> list_all2 enemyKept es es'"
proof (induction bs arbitrary: es s bs' es' s')
  case Nil
  then show ?case by (simp add: scoring_refl enemiesKept_refl)
next
  case (Cons b bs)
  show ?case
  proof (cases "bullet.active b")
    case False
    obtain bs2 es2 s2 where r: "bulletsVsEnemies bs es s = (bs2, es2, s2)"
      by (cases "bulletsVsEnemies bs es s") auto
    from Cons.prems False r have "es' = es2" "s' = s2" by simp_all
    with Cons.IH [OF r] show ?thesis by simp
  next
    case True
    obtain b1 es1 s1 where h: "bulletVsEnemies b es s = (b1, es1, s1)"
      by (cases "bulletVsEnemies b es s") auto
    obtain bs2 es2 s2 where r: "bulletsVsEnemies bs es1 s1 = (bs2, es2, s2)"
      by (cases "bulletsVsEnemies bs es1 s1") auto
    from Cons.prems True h r have res: "es' = es2" "s' = s2" by simp_all
    from Cons.IH [OF r] bulletVsEnemies_kept [OF h] show ?thesis
      by (auto simp add: res intro: scoring_trans enemiesKept_trans)
  qed
qed

lemma bulletEnemyCollision_kept:
  "scoring s (bulletEnemyCollision s)"
  "list_all2 enemyKept (enemies (gameStateRef s)) (enemies (gameStateRef (bulletEnemyCollision s)))"
proof -
  obtain bs es s1 where r:
    "bulletsVsEnemies (bullets (gameStateRef s)) (enemies (gameStateRef s)) s = (bs, es, s1)"
    by (cases "bulletsVsEnemies (bullets (gameStateRef s)) (enemies (gameStateRef s)) s") auto
  from bulletsVsEnemies_kept [OF r]
  show "scoring s (bulletEnemyCollision s)"
    "list_all2 enemyKept (enemies (gameStateRef s)) (enemies (gameStateRef (bulletEnemyCollision s)))"
    by (simp_all add: bulletEnemyCollision_def r scoring_def untouched_def)
qed

subsection \<open>The player-enemy pass\<close>

lemma wounding_refl: "wounding s s"
  by (simp add: wounding_def untouched_refl)

lemma wounding_trans: "wounding s s1 \<Longrightarrow> wounding s1 s2 \<Longrightarrow> wounding s s2"
proof -
  assume a: "wounding s s1" and b: "wounding s1 s2"
  have "untouched s s2" using a b by (auto simp add: wounding_def intro: untouched_trans)
  moreover have "gameState.score (gameStateRef s2) = gameState.score (gameStateRef s)"
    using a b by (simp add: wounding_def)
  moreover have "gameState.lives (gameStateRef s2) \<le> gameState.lives (gameStateRef s)"
    using a b by (simp add: wounding_def)
  moreover have "gameState.gameOver (gameStateRef s) \<longrightarrow> gameState.gameOver (gameStateRef s2)"
    using a b by (simp add: wounding_def)
  moreover have "gameState.lives (gameStateRef s2) < gameState.lives (gameStateRef s) \<and>
      gameState.lives (gameStateRef s2) \<le> 0 \<longrightarrow> gameState.gameOver (gameStateRef s2)"
  proof (cases "gameState.lives (gameStateRef s2) < gameState.lives (gameStateRef s1)")
    case True
    then show ?thesis using b by (simp add: wounding_def)
  next
    case False
    then have "gameState.lives (gameStateRef s2) = gameState.lives (gameStateRef s1)"
      using b by (simp add: wounding_def)
    then show ?thesis using a b by (simp add: wounding_def)
  qed
  ultimately show ?thesis by (simp add: wounding_def)
qed

lemma checkCollision_deactivated:
  "checkCollision p (e\<lparr>enemy.active := a\<rparr>) = checkCollision p e"
  by (simp add: checkCollision_def)

lemma hitPlayer_clear:
  "enemy.active e \<longrightarrow> \<not> checkCollision (player (gameStateRef s)) e \<Longrightarrow> hitPlayer e s = (breach e, s)"
  by (simp add: hitPlayer_def breach_def Let_def checkCollision_deactivated)

lemma hitPlayer_contact:
  "enemy.active e \<Longrightarrow> checkCollision (player (gameStateRef s)) e \<Longrightarrow>
   hitPlayer e s = (e\<lparr>enemy.active := False\<rparr>, loseLife s)"
  by (simp add: hitPlayer_def loseLife_def Let_def checkCollision_deactivated)

lemma loseLife_lives:
  "gameState.lives (gameStateRef (loseLife s)) = gameState.lives (gameStateRef s) - 1"
  by (simp add: loseLife_def Let_def spawnExplosion_def)

lemma loseLife_gameOver:
  "gameState.gameOver (gameStateRef (loseLife s)) \<longleftrightarrow>
     gameState.gameOver (gameStateRef s) \<or> gameState.lives (gameStateRef s) - 1 \<le> 0"
  by (simp add: loseLife_def Let_def spawnExplosion_def)

lemma loseLife_score:
  "gameState.score (gameStateRef (loseLife s)) = gameState.score (gameStateRef s)"
  by (simp add: loseLife_def Let_def spawnExplosion_def)

lemma loseLife_untouched: "untouched s (loseLife s)"
  by (simp add: loseLife_def Let_def spawnExplosion_def untouched_def)

lemma loseLife_wounding: "wounding s (loseLife s)"
  by (simp add: wounding_def loseLife_untouched loseLife_lives loseLife_gameOver loseLife_score)

lemma hitPlayer_kept:
  assumes "hitPlayer e s = (e', s')"
  shows "wounding s s'" and "enemyKept e e'"
proof -
  have "wounding s s' \<and> enemyKept e e'"
  proof (cases "enemy.active e \<and> checkCollision (player (gameStateRef s)) e")
    case True
    with assms have "e' = e\<lparr>enemy.active := False\<rparr>" "s' = loseLife s"
      by (simp_all add: hitPlayer_contact)
    then show ?thesis by (simp add: loseLife_wounding enemyKept_def)
  next
    case False
    with assms have "e' = breach e" "s' = s"
      by (simp_all add: hitPlayer_clear)
    then show ?thesis by (simp add: wounding_refl enemyKept_def breach_def)
  qed
  then show "wounding s s'" and "enemyKept e e'" by simp_all
qed

lemma playerVsEnemies_kept:
  "playerVsEnemies es s = (es', s') \<Longrightarrow> wounding s s' \<and> list_all2 enemyKept es es'"
proof (induction es arbitrary: s es' s')
  case Nil
  then show ?case by (simp add: wounding_refl)
next
  case (Cons e es)
  obtain e1 s1 where h: "hitPlayer e s = (e1, s1)" by (cases "hitPlayer e s") auto
  obtain es2 s2 where r: "playerVsEnemies es s1 = (es2, s2)"
    by (cases "playerVsEnemies es s1") auto
  from Cons.prems h r have res: "es' = e1 # es2" "s' = s2" by simp_all
  from Cons.IH [OF r] hitPlayer_kept [OF h] show ?case
    by (auto simp add: res intro: wounding_trans)
qed

lemma playerEnemyCollision_kept:
  "wounding s (playerEnemyCollision s)"
  "list_all2 enemyKept (enemies (gameStateRef s)) (enemies (gameStateRef (playerEnemyCollision s)))"
proof -
  obtain es s1 where r: "playerVsEnemies (enemies (gameStateRef s)) s = (es, s1)"
    by (cases "playerVsEnemies (enemies (gameStateRef s)) s") auto
  from playerVsEnemies_kept [OF r]
  show "wounding s (playerEnemyCollision s)"
    "list_all2 enemyKept (enemies (gameStateRef s)) (enemies (gameStateRef (playerEnemyCollision s)))"
    by (simp_all add: playerEnemyCollision_def r wounding_def untouched_def)
qed

lemma playerVsEnemies_clear:
  "\<forall>e \<in> set es. enemy.active e \<longrightarrow> \<not> checkCollision (player (gameStateRef s)) e \<Longrightarrow>
   playerVsEnemies es s = (map breach es, s)"
  by (induction es) (simp_all add: hitPlayer_clear)

lemma playerEnemyCollision_clear:
  "\<forall>e \<in> set (enemies (gameStateRef s)). enemy.active e \<longrightarrow> \<not> checkCollision (player (gameStateRef s)) e \<Longrightarrow>
   playerEnemyCollision s = s\<lparr>gameStateRef := (gameStateRef s)\<lparr>enemies := map breach (enemies (gameStateRef s))\<rparr>\<rparr>"
  by (simp add: playerEnemyCollision_def playerVsEnemies_clear)

subsection \<open>Enemy movement\<close>

lemma advanceEnemies_spec:
  "list_all2 advanced es (fst (advanceEnemies es h)) \<and>
   (snd (advanceEnemies es h) \<longleftrightarrow> h \<or> (\<exists>e \<in> set (fst (advanceEnemies es h)). onEdge e))"
proof (induction es arbitrary: h)
  case Nil
  then show ?case by simp
next
  case (Cons e es)
  show ?case
  proof (cases "enemy.active e")
    case False
    have step: "advanceEnemies (e # es) h =
       (e # fst (advanceEnemies es h), snd (advanceEnemies es h))"
      using False by (simp add: split_beta)
    have "advanced e e" and "\<not> onEdge e"
      using False by (simp_all add: advanced_def onEdge_def)
    then show ?thesis using Cons.IH [of h] unfolding step
      by (auto simp del: advanceEnemies.simps)
  next
    case True
    define e2 where "e2 = (let e1 = e\<lparr>entity.x := entity.x e + speed e * direction e\<rparr>
       in if hitFlash e1 > 0 then e1\<lparr>hitFlash := hitFlash e1 - 0.1\<rparr> else e1)"
    define h1 where "h1 = (if entity.x e2 \<le> 10 \<or> entity.x e2 \<ge> CANVAS_WIDTH - ENEMY_WIDTH - 10 then True else h)"
    have step: "advanceEnemies (e # es) h =
       (e2 # fst (advanceEnemies es h1), snd (advanceEnemies es h1))"
      using True by (simp add: e2_def h1_def Let_def split_beta)
    have adv: "advanced e e2" and act: "enemy.active e2"
      using True by (simp_all add: advanced_def e2_def Let_def)
    have "h1 \<longleftrightarrow> h \<or> onEdge e2"
      using act by (auto simp add: h1_def onEdge_def)
    then show ?thesis using Cons.IH [of h1] adv unfolding step
      by (auto simp del: advanceEnemies.simps)
  qed
qed

lemma bounceEnemies_map: "bounceEnemies es = map bounce es"
  by (induction es) (simp_all add: bounce_def)

lemma moveEnemies_spec:
  "moveEnemies es =
     (if \<exists>e \<in> set (fst (advanceEnemies es False)). onEdge e
      then map bounce (fst (advanceEnemies es False))
      else fst (advanceEnemies es False))"
  using advanceEnemies_spec [of es False]
  by (simp add: moveEnemies_def split_beta bounceEnemies_map)

subsection \<open>The invariant of the running game\<close>

lemma enemiesWithin_advanced:
  "list_all2 advanced es es' \<Longrightarrow> enemiesWithin ymax es \<Longrightarrow> enemiesWithin ymax es'"
  unfolding enemiesWithin_def
  by (induction rule: list_all2_induct) (simp_all add: advanced_def)

lemma enemiesWithin_kept:
  "list_all2 enemyKept es es' \<Longrightarrow> enemiesWithin ymax es \<Longrightarrow> enemiesWithin ymax es'"
  unfolding enemiesWithin_def
  by (induction rule: list_all2_induct) (simp_all add: enemyKept_def)

lemma enemiesWithin_bounce:
  "enemiesWithin ymax es \<Longrightarrow> enemiesWithin (ymax + 20) (map bounce es)"
  unfolding enemiesWithin_def
  by (induction es) (simp_all add: bounce_def)

lemma enemiesWithin_mono:
  "enemiesWithin ymax es \<Longrightarrow> ymax \<le> ymax2 \<Longrightarrow> enemiesWithin ymax2 es"
  unfolding enemiesWithin_def
  by (induction es) auto

lemma enemiesWithin_breach:
  "enemiesWithin ymax es \<Longrightarrow> enemiesWithin (CANVAS_HEIGHT - 100) (map breach es)"
  unfolding enemiesWithin_def
  by (induction es) (auto simp add: breach_def)

lemma enemiesWithin_moveEnemies:
  assumes "enemiesWithin ymax es"
  shows "enemiesWithin (ymax + 20) (moveEnemies es)"
proof -
  have adv: "enemiesWithin ymax (fst (advanceEnemies es False))"
    using advanceEnemies_spec [of es False] assms by (auto intro: enemiesWithin_advanced)
  show ?thesis
    unfolding moveEnemies_spec
    using enemiesWithin_bounce [OF adv] enemiesWithin_mono [OF adv, of "ymax + 20"] by simp
qed

lemma enemiesWithin_clear:
  assumes "enemiesWithin (CANVAS_HEIGHT - 80) es"
    and "entity.y p = CANVAS_HEIGHT - PLAYER_HEIGHT - 20"
  shows "\<forall>e \<in> set es. enemy.active e \<longrightarrow> \<not> checkCollision p e"
  using assms
  by (auto simp add: enemiesWithin_def list_all_iff checkCollision_def game_constants)

lemma settled_handleInput: "settled ymax s \<Longrightarrow> settled ymax (handleInput now s)"
  by (auto simp add: settled_def handleInput_def inputFire_def inputLeft_def inputRight_def game_constants)

lemma settled_updateBullets: "settled ymax s \<Longrightarrow> settled ymax (updateBullets s)"
  by (simp add: settled_def updateBullets_def)

lemma settled_updateExplosions: "settled ymax s \<Longrightarrow> settled ymax (updateExplosions s)"
  by (simp add: settled_def updateExplosions_def)

lemma settled_checkWaveComplete: "settled ymax s \<Longrightarrow> settled ymax (checkWaveComplete s)"
  by (simp add: settled_def checkWaveComplete_def Let_def)

lemma settled_updateEnemies: "settled ymax s \<Longrightarrow> settled (ymax + 20) (updateEnemies s)"
  by (simp add: settled_def updateEnemies_def enemiesWithin_moveEnemies)

lemma settled_bulletEnemyCollision:
  assumes "settled ymax s"
  shows "settled ymax (bulletEnemyCollision s)"
proof -
  have sc: "scoring s (bulletEnemyCollision s)"
    and ek: "list_all2 enemyKept (enemies (gameStateRef s)) (enemies (gameStateRef (bulletEnemyCollision s)))"
    by (rule bulletEnemyCollision_kept)+
  have "enemiesWithin ymax (enemies (gameStateRef (bulletEnemyCollision s)))"
    using enemiesWithin_kept [OF ek] assms by (simp add: settled_def)
  moreover have "0 \<le> gameState.score (gameStateRef (bulletEnemyCollision s))"
    using sc assms by (simp add: scoring_def settled_def)
  ultimately show ?thesis
    using sc assms by (simp add: scoring_def untouched_def settled_def)
qed

lemma settled_playerEnemyCollision:
  assumes "settled (CANVAS_HEIGHT - 80) s"
  shows "settled (CANVAS_HEIGHT - 100) (playerEnemyCollision s)"
    and "playerEnemyCollision s =
           s\<lparr>gameStateRef := (gameStateRef s)\<lparr>enemies := map breach (enemies (gameStateRef s))\<rparr>\<rparr>"
proof -
  have clear: "\<forall>e \<in> set (enemies (gameStateRef s)). enemy.active e \<longrightarrow>
                 \<not> checkCollision (player (gameStateRef s)) e"
    using assms by (intro enemiesWithin_clear) (simp_all add: settled_def)
  show eq: "playerEnemyCollision s =
           s\<lparr>gameStateRef := (gameStateRef s)\<lparr>enemies := map breach (enemies (gameStateRef s))\<rparr>\<rparr>"
    by (rule playerEnemyCollision_clear [OF clear])
  have "enemiesWithin (CANVAS_HEIGHT - 100) (map breach (enemies (gameStateRef s)))"
    using assms by (intro enemiesWithin_breach [of "CANVAS_HEIGHT - 80"]) (simp add: settled_def)
  then show "settled (CANVAS_HEIGHT - 100) (playerEnemyCollision s)"
    unfolding eq using assms by (simp add: settled_def)
qed

lemma consistent_playingFrame:
  assumes "consistent s"
  shows "consistent (playingFrame now s)"
proof -
  have "settled (CANVAS_HEIGHT - 100 + 20)
          (bulletEnemyCollision (updateEnemies (updateBullets (handleInput now s))))"
    using assms unfolding consistent_def
    by (intro settled_bulletEnemyCollision settled_updateEnemies settled_updateBullets settled_handleInput)
  then have "settled (CANVAS_HEIGHT - 80)
          (bulletEnemyCollision (updateEnemies (updateBullets (handleInput now s))))"
    by simp
  then show ?thesis
    unfolding consistent_def playingFrame_def
    by (intro settled_updateExplosions settled_checkWaveComplete settled_playerEnemyCollision(1))
qed

lemma enemiesWithin_wave: "enemiesWithin (CANVAS_HEIGHT - 100) (map spawnEnemy (generateWave lvl))"
proof -
  have "height (spawnEnemy e) = ENEMY_HEIGHT \<and> entity.y (spawnEnemy e) \<le> CANVAS_HEIGHT - 100"
    if "e \<in> set (generateWave lvl)" for e
    using generateWave_members [OF that] by (simp add: spawnEnemy_def CANVAS_HEIGHT_def)
  then show ?thesis by (simp add: enemiesWithin_def list_all_iff)
qed

lemma consistent_initial: "consistent initialShooter"
  by (simp add: consistent_def settled_def initialShooter_def initialGameState_def enemiesWithin_def
        game_constants)

lemma consistent_resetGame: "consistent s \<Longrightarrow> consistent (resetGame s)"
  using enemiesWithin_wave [of 1]
  by (simp add: consistent_def settled_def resetGame_def initWave_def Let_def game_constants)

lemma consistent_transitionFrame: "consistent s \<Longrightarrow> consistent (transitionFrame s)"
  using enemiesWithin_wave [of "gameState.level (gameStateRef s) + 1"]
  by (simp add: consistent_def settled_def transitionFrame_def initWave_def Let_def)

lemma consistent_gameLoop: "consistent s \<Longrightarrow> consistent (gameLoop now s)"
  by (simp add: gameLoop_def consistent_transitionFrame consistent_playingFrame)

lemma consistent_keys: "consistent s \<Longrightarrow> consistent (s\<lparr>keysRef := ks\<rparr>)"
  by (simp add: consistent_def settled_def)

lemma consistent_handleKeyDown: "consistent s \<Longrightarrow> consistent (handleKeyDown key s)"
  by (simp add: handleKeyDown_def Let_def consistent_resetGame consistent_keys)

lemma consistent_handleKeyUp: "consistent s \<Longrightarrow> consistent (handleKeyUp key s)"
  by (simp add: handleKeyUp_def consistent_keys)

lemma consistent_step: "consistent s \<Longrightarrow> consistent (step ev s)"
  by (cases ev) (simp_all add: consistent_gameLoop consistent_handleKeyDown consistent_handleKeyUp)

lemma consistent_run: "consistent s \<Longrightarrow> consistent (run evs s)"
  by (induction evs arbitrary: s) (simp_all add: consistent_step)

lemma consistent_reachable: "consistent (run evs initialShooter)"
  by (rule consistent_run [OF consistent_initial])

subsection \<open>Summary of a playing frame\<close>

lemma playingFrame_split:
  "playingFrame now s = updateExplosions (checkWaveComplete (beforeWaveCheck now s))"
  by (simp add: playingFrame_def beforeWaveCheck_def)

lemma handleInput_keeps:
  "gameState.level (gameStateRef (handleInput now s)) = gameState.level (gameStateRef s) \<and>
   gameState.levelComplete (gameStateRef (handleInput now s)) = gameState.levelComplete (gameStateRef s) \<and>
   levelTransition (gameStateRef (handleInput now s)) = levelTransition (gameStateRef s) \<and>
   transitionTimer (gameStateRef (handleInput now s)) = transitionTimer (gameStateRef s) \<and>
   gameState.started (gameStateRef (handleInput now s)) = gameState.started (gameStateRef s) \<and>
   gameState.gameOver (gameStateRef (handleInput now s)) = gameState.gameOver (gameStateRef s) \<and>
   gameState.lives (gameStateRef (handleInput now s)) = gameState.lives (gameStateRef s) \<and>
   gameState.score (gameStateRef (handleInput now s)) = gameState.score (gameStateRef s) \<and>
   enemies (gameStateRef (handleInput now s)) = enemies (gameStateRef s)"
  by (simp add: handleInput_def inputFire_def inputLeft_def inputRight_def)

lemma session_handleInput: "session (handleInput now s) = session s"
  by (simp add: session_def handleInput_def inputFire_def inputLeft_def inputRight_def)

lemma session_updateBullets: "session (updateBullets s) = session s"
  by (simp add: session_def updateBullets_def)

lemma session_updateEnemies: "session (updateEnemies s) = session s"
  by (simp add: session_def updateEnemies_def)

lemma session_untouched: "untouched s s' \<Longrightarrow> session s' = session s"
  by (simp add: session_def untouched_def)

lemma session_bulletEnemyCollision: "session (bulletEnemyCollision s) = session s"
  using bulletEnemyCollision_kept(1) [of s] by (simp add: scoring_def session_untouched)

lemma session_playerEnemyCollision: "session (playerEnemyCollision s) = session s"
  using playerEnemyCollision_kept(1) [of s] by (simp add: wounding_def session_untouched)

lemma session_beforeWaveCheck: "session (beforeWaveCheck now s) = session s"
  by (simp add: beforeWaveCheck_def session_playerEnemyCollision session_bulletEnemyCollision
        session_updateEnemies session_updateBullets session_handleInput)

lemma vitals_handleInput: "vitals (handleInput now s) = vitals s"
  by (simp add: vitals_def handleInput_def inputFire_def inputLeft_def inputRight_def)

lemma vitals_updateBullets: "vitals (updateBullets s) = vitals s"
  by (simp add: vitals_def updateBullets_def)

lemma vitals_updateEnemies: "vitals (updateEnemies s) = vitals s"
  by (simp add: vitals_def updateEnemies_def)

lemma vitals_updateExplosions: "vitals (updateExplosions s) = vitals s"
  by (simp add: vitals_def updateExplosions_def)

lemma vitals_checkWaveComplete: "vitals (checkWaveComplete s) = vitals s"
  by (simp add: vitals_def checkWaveComplete_def Let_def)

lemma started_after_check:
  "gameState.started (gameStateRef (updateExplosions (checkWaveComplete s))) = gameState.started (gameStateRef s)"
  by (simp add: updateExplosions_def checkWaveComplete_def Let_def)

lemma lives_playingFrame:
  "gameState.lives (gameStateRef (playingFrame now s)) \<le> gameState.lives (gameStateRef s) \<and>
   (gameState.lives (gameStateRef (playingFrame now s)) < gameState.lives (gameStateRef s) \<and>
    gameState.lives (gameStateRef (playingFrame now s)) \<le> 0 \<longrightarrow>
      gameState.gameOver (gameStateRef (playingFrame now s))) \<and>
   gameState.started (gameStateRef (playingFrame now s)) = gameState.started (gameStateRef s)"
proof -
  define s3 where "s3 = updateEnemies (updateBullets (handleInput now s))"
  define s4 where "s4 = bulletEnemyCollision s3"
  define s5 where "s5 = playerEnemyCollision s4"
  have v3: "vitals s3 = vitals s"
    by (simp add: s3_def vitals_updateEnemies vitals_updateBullets vitals_handleInput)
  have sc: "scoring s3 s4" unfolding s4_def by (rule bulletEnemyCollision_kept)
  have w: "wounding s4 s5" unfolding s5_def by (rule playerEnemyCollision_kept)
  have f: "playingFrame now s = updateExplosions (checkWaveComplete s5)"
    by (simp add: playingFrame_def s5_def s4_def s3_def)
  have vf: "vitals (playingFrame now s) = vitals s5"
    by (simp add: f vitals_updateExplosions vitals_checkWaveComplete)
  have st: "gameState.started (gameStateRef (playingFrame now s)) = gameState.started (gameStateRef s)"
    using session_beforeWaveCheck [of now s]
    by (simp add: playingFrame_split started_after_check session_def)
  have l4: "gameState.lives (gameStateRef s4) = gameState.lives (gameStateRef s)"
    using sc v3 by (simp add: scoring_def vitals_def)
  show ?thesis
    using w vf l4 st by (simp add: wounding_def vitals_def)
qed

lemma enemies_after_check:
  "enemies (gameStateRef (updateExplosions (checkWaveComplete s))) = enemies (gameStateRef s)"
  by (simp add: updateExplosions_def checkWaveComplete_def Let_def)

lemma enemies_playingFrame:
  "list_all2 enemyKept (moveEnemies (enemies (gameStateRef s))) (enemies (gameStateRef (playingFrame now s)))"
proof -
  define s3 where "s3 = updateEnemies (updateBullets (handleInput now s))"
  have e3: "enemies (gameStateRef s3) = moveEnemies (enemies (gameStateRef s))"
    by (simp add: s3_def updateEnemies_def updateBullets_def handleInput_keeps)
  have "list_all2 enemyKept (enemies (gameStateRef s3))
          (enemies (gameStateRef (playerEnemyCollision (bulletEnemyCollision s3))))"
    using bulletEnemyCollision_kept(2) [of s3]
      playerEnemyCollision_kept(2) [of "bulletEnemyCollision s3"]
    by (rule enemiesKept_trans)
  then have "list_all2 enemyKept (moveEnemies (enemies (gameStateRef s)))
          (enemies (gameStateRef (playerEnemyCollision (bulletEnemyCollision s3))))"
    by (simp only: e3)
  then show ?thesis
    by (simp add: playingFrame_def enemies_after_check s3_def)
qed

lemma handleInput_range:
  "10 \<le> playerX s \<Longrightarrow> playerX s \<le> CANVAS_WIDTH - PLAYER_WIDTH - 10 \<Longrightarrow>
   10 \<le> playerX (handleInput now s) \<and> playerX (handleInput now s) \<le> CANVAS_WIDTH - PLAYER_WIDTH - 10"
  by (auto simp add: playerX_def handleInput_def inputFire_def inputLeft_def inputRight_def game_constants)

subsection \<open>Wave completion and the transition countdown\<close>

lemma wave_cleared:
  assumes c: "consistent s" and m: "mode s = Playing"
    and none: "length (filter enemy.active (enemies (gameStateRef (gameLoop now s)))) = 0"
  shows "gameState.levelComplete (gameStateRef (gameLoop now s)) \<and>
         mode (gameLoop now s) = LevelTransition \<and>
         transitionTimer (gameStateRef (gameLoop now s)) = 2000"
proof -
  define s5 where "s5 = beforeWaveCheck now s"
  have g: "gameLoop now s = updateExplosions (checkWaveComplete s5)"
    using m by (simp add: gameLoop_playing playingFrame_split s5_def)
  have flags: "gameState.started (gameStateRef s)" "\<not> levelTransition (gameStateRef s)"
    using m by (simp_all add: mode_def split: if_splits)
  have "session s5 = session s" unfolding s5_def by (rule session_beforeWaveCheck)
  with flags c have f5: "gameState.started (gameStateRef s5)" "\<not> levelTransition (gameStateRef s5)"
    "\<not> gameState.levelComplete (gameStateRef s5)"
    by (simp_all add: session_def consistent_def settled_def)
  have none5: "filter enemy.active (enemies (gameStateRef s5)) = []"
    using none by (simp add: g enemies_after_check)
  have over: "\<not> gameState.gameOver (gameStateRef (gameLoop now s))"
    using consistent_gameLoop [OF c, of now] by (simp add: consistent_def settled_def)
  have "gameState.levelComplete (gameStateRef (gameLoop now s)) \<and>
        levelTransition (gameStateRef (gameLoop now s)) \<and>
        gameState.started (gameStateRef (gameLoop now s)) \<and>
        transitionTimer (gameStateRef (gameLoop now s)) = 2000"
    using f5 none5 by (simp add: g updateExplosions_def checkWaveComplete_def Let_def)
  with over show ?thesis by (simp add: mode_def)
qed

lemma transition_waiting:
  assumes "mode s = LevelTransition" and "0 < transitionTimer (gameStateRef s) - 16"
  shows "gameLoop now s =
           s\<lparr>gameStateRef := (gameStateRef s)\<lparr>transitionTimer := transitionTimer (gameStateRef s) - 16\<rparr>\<rparr>"
  using assms by (simp add: gameLoop_transition transitionFrame_def Let_def)

lemma transition_done:
  assumes "mode s = LevelTransition" and "transitionTimer (gameStateRef s) - 16 \<le> 0"
  shows "transitionTimer (gameStateRef (gameLoop now s)) = transitionTimer (gameStateRef s) - 16"
    and "gameState.level (gameStateRef (gameLoop now s)) = gameState.level (gameStateRef s) + 1"
    and "enemies (gameStateRef (gameLoop now s)) =
           map spawnEnemy (generateWave (gameState.level (gameStateRef s) + 1))"
    and "mode (gameLoop now s) = Playing"
    and "\<not> gameState.levelComplete (gameStateRef (gameLoop now s))"
  using assms
  by (simp_all add: gameLoop_transition transitionFrame_def initWave_def Let_def
        mode_LevelTransition_iff mode_Playing_iff)

lemma transition_countdown:
  "mode s = LevelTransition \<Longrightarrow> 16 * real (length nows) < transitionTimer (gameStateRef s) \<Longrightarrow>
   run (map Frame nows) s =
     s\<lparr>gameStateRef := (gameStateRef s)
         \<lparr>transitionTimer := transitionTimer (gameStateRef s) - 16 * real (length nows)\<rparr>\<rparr>"
proof (induction nows arbitrary: s)
  case Nil
  then show ?case by simp
next
  case (Cons now nows)
  define s1 where "s1 = s\<lparr>gameStateRef := (gameStateRef s)
      \<lparr>transitionTimer := transitionTimer (gameStateRef s) - 16\<rparr>\<rparr>"
  have pos: "0 < transitionTimer (gameStateRef s) - 16"
    using Cons.prems(2) by simp
  have g: "gameLoop now s = s1"
    unfolding s1_def using Cons.prems(1) pos by (rule transition_waiting)
  have m1: "mode s1 = LevelTransition"
    using Cons.prems(1) by (simp add: s1_def mode_LevelTransition_iff)
  have t1: "16 * real (length nows) < transitionTimer (gameStateRef s1)"
    using Cons.prems(2) by (simp add: s1_def)
  show ?case
    using Cons.IH [OF m1 t1] by (simp add: g) (simp add: s1_def algebra_simps)
qed

subsection \<open>Repeated collisions with the player\<close>

lemma rammed_player: "player (gameStateRef (rammed n)) = player (gameStateRef startedShooter) \<and>
   gameState.started (gameStateRef (rammed n))"
proof (induction n)
  case 0
  then show ?case by (simp add: start_defs)
next
  case (Suc n)
  have "wounding (rammed n) (rammed (Suc n))"
    using hitPlayer_kept(1) [of rammingEnemy "rammed n"] by (cases "hitPlayer rammingEnemy (rammed n)") simp
  then show ?case using Suc by (simp add: wounding_def untouched_def)
qed

lemma rammed_hit: "checkCollision (player (gameStateRef (rammed n))) rammingEnemy"
  by (simp add: rammed_player) (simp add: checkCollision_def rammingEnemy_def start_defs game_constants)

lemma rammed_Suc: "rammed (Suc n) = loseLife (rammed n)"
  using rammed_hit [of n] by (simp add: hitPlayer_contact rammingEnemy_def)

lemma rammed_vitals:
  "gameState.lives (gameStateRef (rammed n)) = 3 - real n \<and>
   (gameState.gameOver (gameStateRef (rammed n)) \<longleftrightarrow> 3 \<le> n) \<and>
   gameState.started (gameStateRef (rammed n)) \<and>
   \<not> levelTransition (gameStateRef (rammed n))"
proof (induction n)
  case 0
  then show ?case by (simp add: start_defs game_constants)
next
  case (Suc n)
  have u: "untouched (rammed n) (loseLife (rammed n))" by (rule loseLife_untouched)
  have "(3 - real n - 1 \<le> 0) = (2 \<le> n)" by linarith
  then show ?case
    using Suc u unfolding rammed_Suc
    by (auto simp add: loseLife_lives loseLife_gameOver untouched_def)
qed

lemma rammed_mode: "mode (rammed n) = (if 3 \<le> n then GameOver else Playing)"
  using rammed_vitals [of n] by (simp add: mode_def)

subsection \<open>One enemy under a bullet\<close>

lemma one_enemy_under_bullet:
  assumes "bulletSized b" "enemySized e" "enemySized e'"
    and "enemy.active e" "enemy.active e'" "inFormation e e'"
    and "checkCollision b e"
  shows "\<not> checkCollision b e'"
  using assms
  unfolding bulletSized_def enemySized_def inFormation_def checkCollision_def game_constants
  by (auto simp add: abs_if split: if_splits)

lemma checkCollision_spent:
  "checkCollision (b\<lparr>bullet.active := a\<rparr>) e = checkCollision b e"
  by (simp add: checkCollision_def)

lemma hitEnemy_miss:
  "\<not> (enemy.active e \<and> checkCollision b e) \<Longrightarrow> hitEnemy b e s = (b, e, s)"
  by (auto simp add: hitEnemy_def)

lemma hitEnemy_hit:
  assumes "enemy.active e" "checkCollision b e" "hitEnemy b e s = (b1, e1, s1)"
  shows "b1 = b\<lparr>bullet.active := False\<rparr>" and "health e1 < health e"
  using assms by (auto simp add: hitEnemy_def Let_def split: if_splits)

lemma bulletVsEnemies_miss:
  "\<forall>e \<in> set es. \<not> (enemy.active e \<and> checkCollision b e) \<Longrightarrow> bulletVsEnemies b es s = (b, es, s)"
  by (induction es) (simp_all add: hitEnemy_miss)

lemma specBulletVsEnemies_spent:
  "\<not> bullet.active b \<Longrightarrow> specBulletVsEnemies b es s = (b, es, s)"
  by (induction es) simp_all

lemma decremented_same: "decremented es es = 0"
  by (simp add: decremented_def zip_same_conv_map filter_map comp_def)

lemma decremented_Cons:
  "decremented (e # es) (e' # es') = (if health e' < health e then 1 else 0) + decremented es es'"
  by (simp add: decremented_def)

lemma bulletVsEnemies_guarded:
  assumes "bullet.active b" "bulletSized b" "list_all enemySized es" "sorted_wrt inFormation es"
  shows "bulletVsEnemies b es s = specBulletVsEnemies b es s \<and>
         decremented es (fst (snd (bulletVsEnemies b es s))) \<le> 1"
  using assms
proof (induction es arbitrary: s)
  case Nil
  then show ?case by (simp add: decremented_def)
next
  case (Cons e es)
  have tail: "list_all enemySized es" "sorted_wrt inFormation es"
    using Cons.prems by simp_all
  show ?case
  proof (cases "enemy.active e \<and> checkCollision b e")
    case False
    then have h: "hitEnemy b e s = (b, e, s)" by (rule hitEnemy_miss)
    note ih = Cons.IH [OF Cons.prems(1,2) tail, of s]
    have eq: "specBulletVsEnemies b es s = bulletVsEnemies b es s"
      using ih by (elim conjE) (rule sym)
    have d: "decremented es (fst (snd (bulletVsEnemies b es s))) \<le> 1"
      using ih by (elim conjE)
    show ?thesis
      using Cons.prems(1) d
      by (simp add: h split_beta decremented_Cons eq)
  next
    case True
    obtain b1 e1 s1 where h: "hitEnemy b e s = (b1, e1, s1)" by (cases "hitEnemy b e s") auto
    have b1: "b1 = b\<lparr>bullet.active := False\<rparr>" and dec: "health e1 < health e"
      using hitEnemy_hit [OF _ _ h] True by simp_all
    have clear: "\<forall>e' \<in> set es. \<not> (enemy.active e' \<and> checkCollision b1 e')"
    proof (intro ballI notI, elim conjE)
      fix e' assume e': "e' \<in> set es" and a: "enemy.active e'" and c: "checkCollision b1 e'"
      have "inFormation e e'" using Cons.prems(4) e' by simp
      moreover have "enemySized e" "enemySized e'"
        using Cons.prems(3) e' by (simp_all add: list_all_iff)
      ultimately have "\<not> checkCollision b e'"
        using one_enemy_under_bullet [of b e e'] Cons.prems(2) True a by blast
      with c show False by (simp add: b1 checkCollision_spent)
    qed
    have rest: "bulletVsEnemies b1 es s1 = (b1, es, s1)"
      using clear by (rule bulletVsEnemies_miss)
    have rest': "specBulletVsEnemies b1 es s1 = (b1, es, s1)"
      by (rule specBulletVsEnemies_spent) (simp add: b1)
    show ?thesis
      using Cons.prems(1) dec
      by (simp add: h rest rest' decremented_Cons decremented_same)
  qed
qed

lemma enemySized_kept:
  "list_all2 enemyKept es es' \<Longrightarrow> list_all enemySized es \<Longrightarrow> list_all enemySized es'"
  by (induction rule: list_all2_induct) (simp_all add: enemyKept_def enemySized_def)

lemma inFormation_kept:
  "enemyKept e1 e1' \<Longrightarrow> enemyKept e2 e2' \<Longrightarrow> inFormation e1 e2 \<Longrightarrow> inFormation e1' e2'"
  by (simp add: enemyKept_def inFormation_def)

lemma sorted_wrt_kept:
  assumes "list_all2 enemyKept es es'" and "sorted_wrt inFormation es"
  shows "sorted_wrt inFormation es'"
proof -
  have len: "length es' = length es" and nth: "\<And>i. i < length es \<Longrightarrow> enemyKept (es ! i) (es' ! i)"
    using assms(1) by (simp_all add: list_all2_conv_all_nth)
  show ?thesis
    unfolding sorted_wrt_iff_nth_less
  proof (intro allI impI)
    fix i j assume ij: "i < j" and j: "j < length es'"
    then have "inFormation (es ! i) (es ! j)"
      using assms(2) len by (simp add: sorted_wrt_iff_nth_less)
    then show "inFormation (es' ! i) (es' ! j)"
      using nth [of i] nth [of j] ij j len by (auto intro: inFormation_kept)
  qed
qed

lemma hitEnemy_bullet:
  "hitEnemy b e s = (b1, e1, s1) \<Longrightarrow> bulletSized b1 = bulletSized b"
  by (auto simp add: hitEnemy_def Let_def bulletSized_def split: if_splits)

lemma bulletVsEnemies_bullet:
  "bulletVsEnemies b es s = (b', es', s') \<Longrightarrow> bulletSized b' = bulletSized b"
proof (induction es arbitrary: b s b' es' s')
  case Nil
  then show ?case by simp
next
  case (Cons e es)
  obtain b1 e1 s1 where h: "hitEnemy b e s = (b1, e1, s1)" by (cases "hitEnemy b e s") auto
  obtain b2 es2 s2 where r: "bulletVsEnemies b1 es s1 = (b2, es2, s2)"
    by (cases "bulletVsEnemies b1 es s1") auto
  from Cons.prems h r have "b' = b2" by simp
  then show ?case using Cons.IH [OF r] hitEnemy_bullet [OF h] by simp
qed

lemma bulletsVsEnemies_guarded:
  assumes "list_all bulletSized bs" "list_all enemySized es" "sorted_wrt inFormation es"
  shows "bulletsVsEnemies bs es s = specBulletsVsEnemies bs es s \<and>
         list_all (\<lambda>n. n \<le> 1) (hitCounts bs es s) \<and>
         list_all bulletSized (fst (bulletsVsEnemies bs es s))"
  using assms
proof (induction bs arbitrary: es s)
  case Nil
  then show ?case by simp
next
  case (Cons b bs)
  have bs: "list_all bulletSized bs" and b: "bulletSized b" using Cons.prems(1) by simp_all
  show ?case
  proof (cases "bullet.active b")
    case False
    note ih = Cons.IH [OF bs Cons.prems(2,3), of s]
    have eq: "specBulletsVsEnemies bs es s = bulletsVsEnemies bs es s"
      using ih by (elim conjE) (rule sym)
    show ?thesis using ih False b by (simp add: eq split_beta)
  next
    case True
    obtain b1 es1 s1 where h: "bulletVsEnemies b es s = (b1, es1, s1)"
      by (cases "bulletVsEnemies b es s") auto
    note inner = bulletVsEnemies_guarded [OF True b Cons.prems(2,3), of s]
    have h': "specBulletVsEnemies b es s = (b1, es1, s1)"
      using inner h by simp
    have d: "decremented es es1 \<le> 1"
      using inner h by simp
    have kept: "list_all2 enemyKept es es1"
      using bulletVsEnemies_kept [OF h] by simp
    have es1: "list_all enemySized es1" "sorted_wrt inFormation es1"
      using kept Cons.prems(2,3) by (auto intro: enemySized_kept sorted_wrt_kept)
    have b1: "bulletSized b1"
      using bulletVsEnemies_bullet [OF h] b by simp
    note ih = Cons.IH [OF bs es1, of s1]
    have eq: "specBulletsVsEnemies bs es1 s1 = bulletsVsEnemies bs es1 s1"
      using ih by (elim conjE) (rule sym)
    show ?thesis using ih True d b1 by (simp add: h h' eq split_beta)
  qed
qed

subsection \<open>The formation is kept by every step\<close>

lemma moveBullets_sized: "list_all bulletSized bs \<Longrightarrow> list_all bulletSized (moveBullets bs)"
  by (induction bs) (simp_all add: Let_def bulletSized_def)

lemma advanceEnemies_map: "fst (advanceEnemies es h) = map advanceEnemy es"
  by (induction es arbitrary: h) (simp_all add: advanceEnemy_def Let_def split_beta)

lemma enemySized_advanceEnemy: "enemySized (advanceEnemy e) = enemySized e"
  by (simp add: advanceEnemy_def enemySized_def Let_def)

lemma enemySized_bounce: "enemySized (bounce e) = enemySized e"
  by (simp add: bounce_def enemySized_def)

lemma inFormation_advanceEnemy:
  "inFormation e e' \<Longrightarrow> inFormation (advanceEnemy e) (advanceEnemy e')"
  by (simp add: inFormation_def advanceEnemy_def Let_def)

lemma inFormation_bounce:
  "inFormation e e' \<Longrightarrow> inFormation (bounce e) (bounce e')"
  by (simp add: inFormation_def bounce_def)

lemma sorted_wrt_map_formation:
  assumes "\<And>e e'. inFormation e e' \<Longrightarrow> inFormation (f e) (f e')"
    and "sorted_wrt inFormation es"
  shows "sorted_wrt inFormation (map f es)"
  unfolding sorted_wrt_map using assms(2)
  by (rule sorted_wrt_mono_rel [rotated]) (simp add: assms(1))

lemma moveEnemies_formation:
  assumes "list_all enemySized es" and "sorted_wrt inFormation es"
  shows "list_all enemySized (moveEnemies es)" and "sorted_wrt inFormation (moveEnemies es)"
proof -
  have a: "list_all enemySized (map advanceEnemy es)"
    using assms(1) by (simp add: list_all_iff enemySized_advanceEnemy)
  have b: "sorted_wrt inFormation (map advanceEnemy es)"
    using assms(2) by (rule sorted_wrt_map_formation [rotated]) (rule inFormation_advanceEnemy)
  have c: "list_all enemySized (map bounce (map advanceEnemy es))"
    using a by (simp add: list_all_iff enemySized_bounce)
  have d: "sorted_wrt inFormation (map bounce (map advanceEnemy es))"
    using b by (rule sorted_wrt_map_formation [rotated]) (rule inFormation_bounce)
  show "list_all enemySized (moveEnemies es)" and "sorted_wrt inFormation (moveEnemies es)"
    using a b c d by (simp_all add: moveEnemies_spec advanceEnemies_map)
qed

lemma waveEnemy_apart:
  assumes "r \<noteq> r' \<or> c \<noteq> c'"
  shows "inFormation (spawnEnemy (waveEnemy lvl sx r c)) (spawnEnemy (waveEnemy lvl sx r' c'))"
proof -
  have n: "1 \<le> \<bar>real a - real b\<bar>" if "a \<noteq> b" for a b :: nat
    using that by (cases "a < b") auto
  from assms have "60 \<le> \<bar>real c * 60 - real c' * 60\<bar> \<or> 50 \<le> \<bar>real r * 50 - real r' * 50\<bar>"
  proof
    assume "r \<noteq> r'"
    from n [OF this] have "50 \<le> \<bar>real r - real r'\<bar> * 50" by simp
    also have "\<bar>real r - real r'\<bar> * 50 = \<bar>real r * 50 - real r' * 50\<bar>"
      by (simp add: abs_if)
    finally show ?thesis by simp
  next
    assume "c \<noteq> c'"
    from n [OF this] have "60 \<le> \<bar>real c - real c'\<bar> * 60" by simp
    also have "\<bar>real c - real c'\<bar> * 60 = \<bar>real c * 60 - real c' * 60\<bar>"
      by (simp add: abs_if)
    finally show ?thesis by simp
  qed
  then show ?thesis
    by (simp add: inFormation_def spawnEnemy_def waveEnemy_def)
qed

lemma waveGrid_formation:
  "sorted_wrt inFormation (map spawnEnemy (waveGrid lvl sx cols 0 rows))"
  unfolding sorted_wrt_iff_nth_less
proof (intro allI impI)
  fix i j assume ij: "i < j" and j: "j < length (map spawnEnemy (waveGrid lvl sx cols 0 rows))"
  then have j': "j < rows * cols" and i': "i < rows * cols"
    by (simp_all add: length_waveGrid)
  have "i div cols \<noteq> j div cols \<or> i mod cols \<noteq> j mod cols"
    using ij by (metis div_mult_mod_eq less_irrefl)
  then show "inFormation (map spawnEnemy (waveGrid lvl sx cols 0 rows) ! i)
               (map spawnEnemy (waveGrid lvl sx cols 0 rows) ! j)"
    using i' j' by (simp add: length_waveGrid nth_waveGrid waveEnemy_apart)
qed

lemma wave_formation:
  "sorted_wrt inFormation (map spawnEnemy (generateWave lvl))"
  unfolding generateWave_closed take_map [symmetric]
  by (rule sorted_wrt_take) (rule waveGrid_formation)

lemma wave_sized: "list_all enemySized (map spawnEnemy (generateWave lvl))"
proof -
  have "enemySized (spawnEnemy e)" if "e \<in> set (generateWave lvl)" for e
  proof -
    from that have "e \<in> set (waveGrid lvl (waveStartX lvl) (nat (waveColCount lvl)) 0 (nat (waveRowCount lvl)))"
      unfolding generateWave_closed by (rule in_set_takeD)
    then obtain r c where "e = waveEnemy lvl (waveStartX lvl) r c"
      using waveGrid_members by blast
    then show ?thesis by (simp add: enemySized_def spawnEnemy_def waveEnemy_def)
  qed
  then show ?thesis by (simp add: list_all_iff)
qed

lemma formation_initial: "formation initialShooter"
  by (simp add: formation_def initialShooter_def initialGameState_def)

lemma formation_resetGame: "formation (resetGame s)"
  by (simp add: formation_def resetGame_def initWave_def Let_def wave_formation wave_sized)

lemma formation_keys: "formation s \<Longrightarrow> formation (s\<lparr>keysRef := ks\<rparr>)"
  by (simp add: formation_def)

lemma formation_handleKeyDown: "formation s \<Longrightarrow> formation (handleKeyDown key s)"
  by (simp add: handleKeyDown_def Let_def formation_resetGame formation_keys)

lemma formation_handleKeyUp: "formation s \<Longrightarrow> formation (handleKeyUp key s)"
  by (simp add: handleKeyUp_def formation_keys)

lemma formation_transitionFrame: "formation s \<Longrightarrow> formation (transitionFrame s)"
  by (simp add: formation_def transitionFrame_def initWave_def Let_def wave_formation wave_sized)

lemma formation_handleInput: "formation s \<Longrightarrow> formation (handleInput now s)"
  by (simp add: formation_def handleInput_def inputFire_def inputLeft_def inputRight_def bulletSized_def)

lemma formation_updateBullets: "formation s \<Longrightarrow> formation (updateBullets s)"
  by (simp add: formation_def updateBullets_def moveBullets_sized)

lemma formation_updateEnemies: "formation s \<Longrightarrow> formation (updateEnemies s)"
  by (simp add: formation_def updateEnemies_def moveEnemies_formation)

lemma formation_beforeBulletPass: "formation s \<Longrightarrow> formation (beforeBulletPass now s)"
  unfolding beforeBulletPass_def
  by (intro formation_updateEnemies formation_updateBullets formation_handleInput)

lemma bulletEnemyCollision_guarded:
  assumes "formation s"
  shows "bulletEnemyCollision s = specBulletEnemyCollision s"
    and "list_all (\<lambda>n. n \<le> 1) (hitCounts (bullets (gameStateRef s)) (enemies (gameStateRef s)) s)"
    and "formation (bulletEnemyCollision s)"
proof -
  note g = bulletsVsEnemies_guarded [of "bullets (gameStateRef s)" "enemies (gameStateRef s)" s]
  have f: "list_all bulletSized (bullets (gameStateRef s))"
    "list_all enemySized (enemies (gameStateRef s))"
    "sorted_wrt inFormation (enemies (gameStateRef s))"
    using assms by (simp_all add: formation_def)
  note g' = g [OF f]
  show "bulletEnemyCollision s = specBulletEnemyCollision s"
    using g' by (simp add: bulletEnemyCollision_def specBulletEnemyCollision_def)
  show "list_all (\<lambda>n. n \<le> 1) (hitCounts (bullets (gameStateRef s)) (enemies (gameStateRef s)) s)"
    using g' by simp
  obtain bs es s1 where r:
    "bulletsVsEnemies (bullets (gameStateRef s)) (enemies (gameStateRef s)) s = (bs, es, s1)"
    by (cases "bulletsVsEnemies (bullets (gameStateRef s)) (enemies (gameStateRef s)) s") auto
  have k: "list_all2 enemyKept (enemies (gameStateRef s)) es"
    using bulletsVsEnemies_kept [OF r] by simp
  have "list_all bulletSized bs" using g' by (simp add: r)
  moreover have "list_all enemySized es" "sorted_wrt inFormation es"
    using k f by (auto intro: enemySized_kept sorted_wrt_kept)
  ultimately show "formation (bulletEnemyCollision s)"
    by (simp add: bulletEnemyCollision_def r formation_def)
qed

lemma hitPlayer_bullets:
  "bullets (gameStateRef (snd (hitPlayer e s))) = bullets (gameStateRef s)"
proof (cases "enemy.active e \<and> checkCollision (player (gameStateRef s)) e")
  case True
  then show ?thesis
    by (simp add: hitPlayer_contact loseLife_def Let_def spawnExplosion_def)
next
  case False
  then show ?thesis by (simp add: hitPlayer_clear)
qed

lemma playerVsEnemies_bullets:
  "bullets (gameStateRef (snd (playerVsEnemies es s))) = bullets (gameStateRef s)"
proof (induction es arbitrary: s)
  case Nil
  then show ?case by simp
next
  case (Cons e es)
  show ?case
    using Cons.IH [of "snd (hitPlayer e s)"] hitPlayer_bullets [of e s]
    by (simp add: split_beta)
qed

lemma formation_playerEnemyCollision:
  assumes "formation s"
  shows "formation (playerEnemyCollision s)"
proof -
  have k: "list_all2 enemyKept (enemies (gameStateRef s)) (enemies (gameStateRef (playerEnemyCollision s)))"
    by (rule playerEnemyCollision_kept)
  have b: "bullets (gameStateRef (playerEnemyCollision s)) = bullets (gameStateRef s)"
    using playerVsEnemies_bullets [of "enemies (gameStateRef s)" s]
    by (simp add: playerEnemyCollision_def split_beta)
  show ?thesis
    using assms k b by (auto simp add: formation_def intro: enemySized_kept sorted_wrt_kept)
qed

lemma formation_checkWaveComplete: "formation s \<Longrightarrow> formation (checkWaveComplete s)"
  by (simp add: formation_def checkWaveComplete_def Let_def)

lemma formation_updateExplosions: "formation s \<Longrightarrow> formation (updateExplosions s)"
  by (simp add: formation_def updateExplosions_def)

lemma formation_playingFrame: "formation s \<Longrightarrow> formation (playingFrame now s)"
  unfolding playingFrame_def
  by (intro formation_updateExplosions formation_checkWaveComplete formation_playerEnemyCollision
        bulletEnemyCollision_guarded(3) formation_updateEnemies formation_updateBullets
        formation_handleInput)

lemma formation_gameLoop: "formation s \<Longrightarrow> formation (gameLoop now s)"
  by (simp add: gameLoop_def formation_transitionFrame formation_playingFrame)

lemma formation_step: "formation s \<Longrightarrow> formation (step ev s)"
  by (cases ev) (simp_all add: formation_gameLoop formation_handleKeyDown formation_handleKeyUp)

lemma formation_run: "formation s \<Longrightarrow> formation (run evs s)"
  by (induction evs arbitrary: s) (simp_all add: formation_step)

lemma formation_reachable: "formation (run evs initialShooter)"
  by (rule formation_run [OF formation_initial])

lemma gameLoop_guarded:
  assumes "formation s"
  shows "gameLoop now s = specGameLoop now s"
proof -
  have "bulletEnemyCollision (beforeBulletPass now s) = specBulletEnemyCollision (beforeBulletPass now s)"
    using assms by (intro bulletEnemyCollision_guarded(1) formation_beforeBulletPass)
  then have "playingFrame now s = specPlayingFrame now s"
    by (simp add: playingFrame_def specPlayingFrame_def beforeBulletPass_def)
  then show ?thesis by (simp add: gameLoop_def specGameLoop_def)
qed

subsection \<open>A run with a hit\<close>

lemma wave1: "generateWave 1 =
  [waveEnemy 1 240 0 0, waveEnemy 1 240 0 1, waveEnemy 1 240 0 2, waveEnemy 1 240 1 0, waveEnemy 1 240 1 1]"
proof -
  have c: "waveColCount 1 = 3" by (simp add: waveColCount_def waveBase_def waveRowCount_def)
  have r: "waveRowCount 1 = 2" by (simp add: waveRowCount_def)
  have b: "waveBase 1 = 5" by (simp add: waveBase_def)
  have sx: "waveStartX 1 = 240" by (simp add: waveStartX_def c game_constants)
  have u2: "[0..<2] = [0, 1::nat]" by (simp add: upt_rec)
  have u3: "[0..<3] = [0, 1, 2::nat]" by (simp add: upt_rec)
  show ?thesis
    by (simp add: generateWave_closed c r b sx waveGrid_def u2 u3)
qed

lemma flight_first: "gameLoop 1000 (handleKeyDown '' '' initialShooter) = flight 1"
  by (simp add: run_defs flight_def wave1 waveEnemy_def spawnEnemy_def)

lemma flight_step:
  assumes "k < 42"
  shows "gameLoop 1000 (flight k) = flight (Suc k)"
proof -
  have k: "real k < 42" using assms by simp
  show ?thesis
    using k
    by (simp add: frame_defs game_constants flight_def wave1 waveEnemy_def spawnEnemy_def algebra_simps)
      argo
qed

lemma run_frames_Suc:
  "run (replicate (Suc k) (Frame t)) s = gameLoop t (run (replicate k (Frame t)) s)"
proof -
  have "replicate (Suc k) (Frame t) = replicate k (Frame t) @ [Frame t]"
    by (simp add: replicate_append_same)
  then show ?thesis
    by (simp only: run_append run.simps step.simps)
qed

lemma flight_run:
  "k \<le> 41 \<Longrightarrow> run (replicate k (Frame 1000)) (flight 1) = flight (Suc k)"
proof (induction k)
  case 0
  then show ?case by simp
next
  case (Suc k)
  then have "run (replicate k (Frame 1000)) (flight 1) = flight (Suc k)" by simp
  moreover have "Suc k < 42" using Suc.prems by simp
  ultimately show ?case
    by (simp only: run_frames_Suc flight_step)
qed

lemma firstHitRun_flight: "run firstHitRun initialShooter = flight 42"
proof -
  have "replicate 42 (Frame 1000) = Frame 1000 # replicate 41 (Frame 1000)"
    by (simp add: eval_nat_numeral)
  then have "run firstHitRun initialShooter = run (replicate 41 (Frame 1000)) (flight 1)"
    by (simp add: firstHitRun_def flight_first)
  also have "\<dots> = flight (Suc 41)" by (rule flight_run) simp
  finally show ?thesis by simp
qed

lemma first_hit:
  "hitCounts (bullets (gameStateRef (beforeBulletPass 1000 (flight 42))))
     (enemies (gameStateRef (beforeBulletPass 1000 (flight 42))))
     (beforeBulletPass 1000 (flight 42)) = [1] \<and>
   map health (enemies (gameStateRef (gameLoop 1000 (flight 42)))) = [1, 1, 1, 0, 1] \<and>
   map enemy.active (enemies (gameStateRef (gameLoop 1000 (flight 42)))) = [True, True, True, False, True] \<and>
   gameState.score (gameStateRef (gameLoop 1000 (flight 42))) = 100"
  by (simp add: beforeBulletPass_def decremented_def frame_defs game_constants flight_def wave1
        waveEnemy_def spawnEnemy_def)

text \<open>
  The two loops are different functions: on \<open>piercingState\<close>, a state outside the
  formation invariant in which two enemies overlap under one bullet, the loop of the source
  decrements both enemies and the loop with the per-pair check only the first.
\<close>

lemma loops_differ_off_formation:
  "\<not> formation piercingState \<and>
   map health (enemies (gameStateRef (gameLoop 0 piercingState))) = [1, 1] \<and>
   map health (enemies (gameStateRef (specGameLoop 0 piercingState))) = [1, 2]"
  by (simp add: piercingState_def start_defs formation_def inFormation_def specGameLoop_def
        specPlayingFrame_def specBulletEnemyCollision_def frame_defs game_constants)

section \<open>Results\<close>

subsection \<open>Wave generator (C1)\<close>

text \<open>
  Claim C1. \<open>generateWave\<close> is a function of the level alone (it reads no state and uses no
  randomness), so equal levels give equal waves. For every level \<open>L \<ge> 1\<close> it returns exactly
  \<open>4 + floor (L * 1.5)\<close> enemy specs. The spec at index \<open>i\<close> sits in row \<open>i div cols\<close> and
  column \<open>i mod cols\<close> of the grid (row-major order), where
  \<open>cols = ceil (baseEnemies / rows)\<close> and \<open>rows = min (2 + floor (L / 3)) 4\<close>: its \<open>x\<close> is
  \<open>startX\<close> plus 60 per column, its \<open>y\<close> is 60 plus 50 per row, its type is the row index
  modulo 3, its health is \<open>1 + floor (L / 4)\<close>, its speed is \<open>1 + L * 0.15\<close> and its
  direction is \<open>+1\<close>. Every row index is below \<open>rows\<close>, and the last spec lies in row
  \<open>rows - 1\<close>, so the formation occupies exactly \<open>rows\<close> rows.
\<close>

theorem generateWave_formation:
  assumes "1 \<le> L"
  shows "int (length (generateWave L)) = 4 + \<lfloor>L * 1.5\<rfloor> \<and>
         (\<forall>i < length (generateWave L).
            generateWave L ! i =
              \<lparr> entity.x = waveStartX L + real (i mod nat (waveColCount L)) * 60,
                entity.y = 60 + real (i div nat (waveColCount L)) * 50,
                width = 36,
                height = 28,
                type = real ((i div nat (waveColCount L)) mod 3),
                health = 1 + of_int \<lfloor>L / 4\<rfloor>,
                speed = 1 + L * 0.15,
                direction = 1 \<rparr> \<and>
            int (i div nat (waveColCount L)) < min (2 + \<lfloor>L / 3\<rfloor>) 4) \<and>
         int ((length (generateWave L) - 1) div nat (waveColCount L)) = min (2 + \<lfloor>L / 3\<rfloor>) 4 - 1 \<and>
         waveColCount L = \<lceil>of_int (4 + \<lfloor>L * 1.5\<rfloor>) / (of_int (min (2 + \<lfloor>L / 3\<rfloor>) 4) :: real)\<rceil> \<and>
         waveStartX L = (600 - (of_int (waveColCount L) - 1) * 60) / 2"
proof -
  have len: "length (generateWave L) = nat (waveBase L)"
    using assms by (rule length_generateWave)
  have b: "5 \<le> waveBase L" using assms by (rule waveBase_ge)
  have r: "2 \<le> waveRowCount L" using waveRowCount_range [of L] assms by simp
  have "int (length (generateWave L)) = 4 + \<lfloor>L * 1.5\<rfloor>"
    using len b by (simp add: waveBase_def)
  moreover have "generateWave L ! i =
              \<lparr> entity.x = waveStartX L + real (i mod nat (waveColCount L)) * 60,
                entity.y = 60 + real (i div nat (waveColCount L)) * 50,
                width = 36,
                height = 28,
                type = real ((i div nat (waveColCount L)) mod 3),
                health = 1 + of_int \<lfloor>L / 4\<rfloor>,
                speed = 1 + L * 0.15,
                direction = 1 \<rparr> \<and>
            int (i div nat (waveColCount L)) < min (2 + \<lfloor>L / 3\<rfloor>) 4"
    if "i < length (generateWave L)" for i
  proof -
    have "i div nat (waveColCount L) < nat (waveRowCount L)"
      using assms that by (rule nth_generateWave(2))
    then have "int (i div nat (waveColCount L)) < waveRowCount L" by linarith
    then show ?thesis
      using nth_generateWave(1) [OF assms that]
      by (simp add: waveEnemy_def waveRowCount_def game_constants)
  qed
  moreover have "int ((length (generateWave L) - 1) div nat (waveColCount L)) = min (2 + \<lfloor>L / 3\<rfloor>) 4 - 1"
  proof -
    have "int (nat (waveRowCount L) - 1) = waveRowCount L - 1" using r by arith
    then show ?thesis
      using wave_last_row [OF assms] by (simp add: len waveRowCount_def)
  qed
  moreover have "waveColCount L = \<lceil>of_int (4 + \<lfloor>L * 1.5\<rfloor>) / (of_int (min (2 + \<lfloor>L / 3\<rfloor>) 4) :: real)\<rceil>"
    by (simp add: waveColCount_def waveBase_def waveRowCount_def)
  moreover have "waveStartX L = (600 - (of_int (waveColCount L) - 1) * 60) / 2"
    by (simp add: waveStartX_def game_constants)
  ultimately show ?thesis by blast
qed

text \<open>
  The statement at level 1: five enemies, the fifth in the second row and second column.
\<close>

theorem generateWave_formation_witness:
  "(1::real) \<le> 1 \<and> length (generateWave 1) = 5 \<and>
   generateWave 1 ! 4 =
     \<lparr> entity.x = 300, entity.y = 110, width = 36, height = 28, type = 1,
       health = 1, speed = 1.15, direction = 1 \<rparr>"
proof -
  have c: "waveColCount 1 = 3"
    by (simp add: waveColCount_def waveBase_def waveRowCount_def)
  have sx: "waveStartX 1 = 240"
    by (simp add: waveStartX_def c game_constants)
  have f: "int (length (generateWave 1)) = 5 \<and>
         (\<forall>i < length (generateWave 1).
            generateWave 1 ! i =
              \<lparr> entity.x = 240 + real (i mod 3) * 60,
                entity.y = 60 + real (i div 3) * 50,
                width = 36,
                height = 28,
                type = real ((i div 3) mod 3),
                health = 1,
                speed = 1.15,
                direction = 1 \<rparr> \<and>
            int (i div 3) < 2)"
    using generateWave_formation [of 1] by (simp add: c sx)
  then have l: "length (generateWave 1) = 5" by linarith
  with f have "generateWave 1 ! 4 =
              \<lparr> entity.x = 240 + real (4 mod 3) * 60,
                entity.y = 60 + real (4 div 3) * 50,
                width = 36,
                height = 28,
                type = real ((4 div 3) mod 3),
                health = 1,
                speed = 1.15,
                direction = 1 \<rparr>" by simp
  with l show ?thesis by simp
qed

subsection \<open>Bullet-enemy collision (C2)\<close>

text \<open>
  Claim C2. In every state reached from the initial state of the component, a frame
  computed with the loops of the source is the frame computed with the loops that check
  \<open>bullet.active\<close> before each pair test: once a bullet has been deactivated by its first
  intersecting enemy, no further enemy is affected by it in that frame. In the bullet-enemy
  pass of such a frame every bullet decrements the health of at most one enemy. The source
  reads the bullet's flag once per bullet only; what makes the later pair tests fail is the
  formation: active enemies move in lockstep and stay 60 apart in \<open>x\<close> or 50 apart in
  \<open>y\<close>, and a bullet of 4 by 12 cannot intersect two enemies of 36 by 28 at that spacing.
\<close>

theorem one_hit_per_bullet:
  "gameLoop now (run evs initialShooter) = specGameLoop now (run evs initialShooter) \<and>
   list_all (\<lambda>n. n \<le> 1)
     (hitCounts (bullets (gameStateRef (beforeBulletPass now (run evs initialShooter))))
        (enemies (gameStateRef (beforeBulletPass now (run evs initialShooter))))
        (beforeBulletPass now (run evs initialShooter)))"
  using gameLoop_guarded [OF formation_reachable, of now evs]
    bulletEnemyCollision_guarded(2) [OF formation_beforeBulletPass [OF formation_reachable], of now evs]
  by simp

text \<open>
  A run in which the bullet hits: after the key press and 42 frames the game is in the
  state \<open>flight 42\<close>; in the next frame the one bullet decrements exactly one enemy (the
  first of the second row), which is destroyed for a score of 100.
\<close>

theorem one_hit_per_bullet_witness:
  "run firstHitRun initialShooter = flight 42 \<and>
   mode (run firstHitRun initialShooter) = Playing \<and>
   length (bullets (gameStateRef (run firstHitRun initialShooter))) = 1 \<and>
   map health (enemies (gameStateRef (run firstHitRun initialShooter))) = [1, 1, 1, 1, 1] \<and>
   hitCounts (bullets (gameStateRef (beforeBulletPass 1000 (run firstHitRun initialShooter))))
     (enemies (gameStateRef (beforeBulletPass 1000 (run firstHitRun initialShooter))))
     (beforeBulletPass 1000 (run firstHitRun initialShooter)) = [1] \<and>
   map health (enemies (gameStateRef (specGameLoop 1000 (run firstHitRun initialShooter)))) =
     [1, 1, 1, 0, 1] \<and>
   gameState.score (gameStateRef (specGameLoop 1000 (run firstHitRun initialShooter))) = 100"
proof -
  have before: "mode (flight 42) = Playing \<and>
     length (bullets (gameStateRef (flight 42))) = 1 \<and>
     map health (enemies (gameStateRef (flight 42))) = [1, 1, 1, 1, 1]"
    by (simp add: mode_def flight_def wave1 waveEnemy_def spawnEnemy_def)
  have same: "specGameLoop 1000 (flight 42) = gameLoop 1000 (flight 42)"
    using one_hit_per_bullet [of 1000 firstHitRun] by (simp add: firstHitRun_flight)
  show ?thesis
    using before first_hit by (simp add: firstHitRun_flight same)
qed

subsection \<open>Lives and score (C3, C4)\<close>

text \<open>
  Claim C3. In every state reached from the initial state of the component by any sequence
  of frames, key presses and key releases, \<open>lives\<close> and \<open>score\<close> are not negative, and
  they are not negative after one more frame at any time. In fact \<open>lives\<close> keeps its initial
  value: an
  active enemy is never lower than the breach line at the start of a frame, it drops by at
  most 20 in a frame, and so its box ends at most at \<open>648\<close>, above the player at \<open>650\<close>;
  it is removed at the breach line before it can touch the player.
\<close>

theorem lives_and_score_never_negative:
  "0 \<le> gameState.lives (gameStateRef (run evs initialShooter)) \<and>
   0 \<le> gameState.score (gameStateRef (run evs initialShooter)) \<and>
   0 \<le> gameState.lives (gameStateRef (gameLoop now (run evs initialShooter))) \<and>
   0 \<le> gameState.score (gameStateRef (gameLoop now (run evs initialShooter))) \<and>
   gameState.lives (gameStateRef (run evs initialShooter)) = INITIAL_LIVES \<and>
   gameState.lives (gameStateRef (gameLoop now (run evs initialShooter))) = INITIAL_LIVES"
  using consistent_reachable [of evs] consistent_gameLoop [OF consistent_reachable [of evs], of now]
  by (simp add: consistent_def settled_def game_constants)

text \<open>
  The statement for a run that starts the game and plays two frames.
\<close>

theorem lives_and_score_never_negative_witness:
  "0 \<le> gameState.lives (gameStateRef (run [KeyDown '' '', Frame 0, Frame 16] initialShooter)) \<and>
   0 \<le> gameState.score (gameStateRef (run [KeyDown '' '', Frame 0, Frame 16] initialShooter))"
  using lives_and_score_never_negative [of "[KeyDown '' '', Frame 0, Frame 16]" 0] by simp

text \<open>
  Claim C4. If a playing frame lowers \<open>lives\<close> and leaves it at 0 or below, the mode after
  that frame is \<open>GameOver\<close>; the same holds for each single collision handled by
  \<open>hitPlayer\<close>. Scenario: starting with 3 lives, three collisions in sequence, each with a
  fresh enemy placed on the player, leave 2, 1 and 0 lives; the mode is still \<open>Playing\<close>
  after the first two and \<open>GameOver\<close> after the third.
\<close>

theorem game_over_when_lives_run_out:
  "(mode s = Playing \<and>
    gameState.lives (gameStateRef (gameLoop now s)) < gameState.lives (gameStateRef s) \<and>
    gameState.lives (gameStateRef (gameLoop now s)) \<le> 0 \<longrightarrow>
      mode (gameLoop now s) = GameOver) \<and>
   (gameState.lives (gameStateRef (snd (hitPlayer e s))) < gameState.lives (gameStateRef s) \<and>
    gameState.lives (gameStateRef (snd (hitPlayer e s))) \<le> 0 \<longrightarrow>
      gameState.gameOver (gameStateRef (snd (hitPlayer e s)))) \<and>
   (gameState.lives (gameStateRef (rammed 0)) = 3 \<and> mode (rammed 0) = Playing \<and>
    checkCollision (player (gameStateRef (rammed 0))) rammingEnemy \<and>
    gameState.lives (gameStateRef (rammed 1)) = 2 \<and> mode (rammed 1) = Playing \<and>
    checkCollision (player (gameStateRef (rammed 1))) rammingEnemy \<and>
    gameState.lives (gameStateRef (rammed 2)) = 1 \<and> mode (rammed 2) = Playing \<and>
    checkCollision (player (gameStateRef (rammed 2))) rammingEnemy \<and>
    gameState.lives (gameStateRef (rammed 3)) = 0 \<and> mode (rammed 3) = GameOver)"
proof -
  have frame: "mode s = Playing \<and>
    gameState.lives (gameStateRef (gameLoop now s)) < gameState.lives (gameStateRef s) \<and>
    gameState.lives (gameStateRef (gameLoop now s)) \<le> 0 \<longrightarrow>
      mode (gameLoop now s) = GameOver"
  proof (intro impI, elim conjE)
    assume m: "mode s = Playing"
      and l: "gameState.lives (gameStateRef (gameLoop now s)) < gameState.lives (gameStateRef s)"
        "gameState.lives (gameStateRef (gameLoop now s)) \<le> 0"
    have st: "gameState.started (gameStateRef s)" using m by (simp add: mode_def split: if_splits)
    show "mode (gameLoop now s) = GameOver"
      using lives_playingFrame [of now s] l st
      unfolding gameLoop_playing [OF m] by (simp add: mode_def)
  qed
  have one: "gameState.lives (gameStateRef (snd (hitPlayer e s))) < gameState.lives (gameStateRef s) \<and>
    gameState.lives (gameStateRef (snd (hitPlayer e s))) \<le> 0 \<longrightarrow>
      gameState.gameOver (gameStateRef (snd (hitPlayer e s)))"
    using hitPlayer_kept(1) [of e s] by (cases "hitPlayer e s") (simp add: wounding_def)
  have r0: "gameState.lives (gameStateRef (rammed 0)) = 3 \<and> mode (rammed 0) = Playing"
    using rammed_vitals [of 0] rammed_mode [of 0] by simp
  have r1: "gameState.lives (gameStateRef (rammed 1)) = 2 \<and> mode (rammed 1) = Playing"
    using rammed_vitals [of 1] rammed_mode [of 1] by simp
  have r2: "gameState.lives (gameStateRef (rammed 2)) = 1 \<and> mode (rammed 2) = Playing"
    using rammed_vitals [of 2] rammed_mode [of 2] by simp
  have r3: "gameState.lives (gameStateRef (rammed 3)) = 0 \<and> mode (rammed 3) = GameOver"
    using rammed_vitals [of 3] rammed_mode [of 3] by simp
  show ?thesis
    using frame one r0 r1 r2 r3 rammed_hit by blast
qed

text \<open>
  A frame that takes the last life: one enemy on the player, one life left.
\<close>

theorem game_over_when_lives_run_out_witness:
  "mode lastLifeState = Playing \<and>
   gameState.lives (gameStateRef lastLifeState) = 1 \<and>
   gameState.lives (gameStateRef (gameLoop 0 lastLifeState)) = 0 \<and>
   mode (gameLoop 0 lastLifeState) = GameOver"
proof -
  have m: "mode lastLifeState = Playing"
    by (simp add: lastLifeState_def start_defs mode_def)
  have l: "gameState.lives (gameStateRef lastLifeState) = 1"
    by (simp add: lastLifeState_def start_defs)
  have l': "gameState.lives (gameStateRef (gameLoop 0 lastLifeState)) = 0"
    by (simp add: lastLifeState_def rammingEnemy_def start_defs frame_defs game_constants)
  show ?thesis
    using game_over_when_lives_run_out [of lastLifeState 0] m l l' by simp
qed

subsection \<open>Player position (C5)\<close>

text \<open>
  Claim C5. In every state reached from the initial state, and after the input step of any
  frame started in such a state, \<open>player.x\<close> lies in \<open>[10, CANVAS_WIDTH - PLAYER_WIDTH - 10]\<close>,
  which is \<open>[10, 550]\<close>. The input step keeps the interval from any state whose \<open>player.x\<close>
  is inside it, whatever keys are held.
\<close>

theorem player_stays_on_field:
  "(10 \<le> playerX (run evs initialShooter) \<and>
    playerX (run evs initialShooter) \<le> CANVAS_WIDTH - PLAYER_WIDTH - 10) \<and>
   (10 \<le> playerX (handleInput now (run evs initialShooter)) \<and>
    playerX (handleInput now (run evs initialShooter)) \<le> CANVAS_WIDTH - PLAYER_WIDTH - 10) \<and>
   (10 \<le> playerX s \<and> playerX s \<le> CANVAS_WIDTH - PLAYER_WIDTH - 10 \<longrightarrow>
    10 \<le> playerX (handleInput now s) \<and> playerX (handleInput now s) \<le> CANVAS_WIDTH - PLAYER_WIDTH - 10) \<and>
   CANVAS_WIDTH - PLAYER_WIDTH - 10 = 550"
proof -
  have r: "10 \<le> playerX (run evs initialShooter) \<and>
           playerX (run evs initialShooter) \<le> CANVAS_WIDTH - PLAYER_WIDTH - 10"
    using consistent_reachable [of evs] by (simp add: consistent_def settled_def playerX_def)
  moreover have "10 \<le> playerX (handleInput now (run evs initialShooter)) \<and>
    playerX (handleInput now (run evs initialShooter)) \<le> CANVAS_WIDTH - PLAYER_WIDTH - 10"
    using r handleInput_range by blast
  moreover have "10 \<le> playerX s \<and> playerX s \<le> CANVAS_WIDTH - PLAYER_WIDTH - 10 \<longrightarrow>
    10 \<le> playerX (handleInput now s) \<and> playerX (handleInput now s) \<le> CANVAS_WIDTH - PLAYER_WIDTH - 10"
    using handleInput_range by blast
  moreover have "CANVAS_WIDTH - PLAYER_WIDTH - 10 = 550"
    by (simp add: game_constants)
  ultimately show ?thesis by blast
qed

text \<open>
  The input step on a state with the player at 280 and both arrow keys held.
\<close>

theorem player_stays_on_field_witness:
  "10 \<le> playerX bothHeldState \<and> playerX bothHeldState \<le> CANVAS_WIDTH - PLAYER_WIDTH - 10 \<and>
   10 \<le> playerX (handleInput 0 bothHeldState) \<and> playerX (handleInput 0 bothHeldState) \<le> 550"
proof -
  have "10 \<le> playerX bothHeldState \<and> playerX bothHeldState \<le> CANVAS_WIDTH - PLAYER_WIDTH - 10"
    by (simp add: playerX_def bothHeldState_def start_defs game_constants)
  then show ?thesis
    using player_stays_on_field [of "[]" 0 bothHeldState] by (simp add: game_constants)
qed

subsection \<open>Reset (C6)\<close>

text \<open>
  Claim C6. \<open>resetGame\<close> is idempotent: a second call in a row leaves the whole
  component state (game state, held keys, time of the last shot, display state) exactly as
  the first call left it. After a call the player is at \<open>x = 280\<close> (its \<open>y\<close> is not
  touched), the bullet and explosion pools are empty, \<open>score\<close> is 0, \<open>lives\<close> is 3,
  \<open>level\<close> is 1, the game is started and not over, no transition is pending, and the
  enemies are the freshly generated wave of level 1, five enemies.
\<close>

theorem resetGame_idempotent:
  "resetGame (resetGame sys) = resetGame sys \<and>
   entity.x (player (gameStateRef (resetGame sys))) = 280 \<and>
   entity.y (player (gameStateRef (resetGame sys))) = entity.y (player (gameStateRef sys)) \<and>
   bullets (gameStateRef (resetGame sys)) = [] \<and>
   explosions (gameStateRef (resetGame sys)) = [] \<and>
   gameState.score (gameStateRef (resetGame sys)) = 0 \<and>
   gameState.lives (gameStateRef (resetGame sys)) = 3 \<and>
   gameState.level (gameStateRef (resetGame sys)) = 1 \<and>
   gameState.started (gameStateRef (resetGame sys)) \<and>
   \<not> gameState.gameOver (gameStateRef (resetGame sys)) \<and>
   \<not> gameState.levelComplete (gameStateRef (resetGame sys)) \<and>
   \<not> levelTransition (gameStateRef (resetGame sys)) \<and>
   enemies (gameStateRef (resetGame sys)) = map spawnEnemy (generateWave 1) \<and>
   length (enemies (gameStateRef (resetGame sys))) = 5 \<and>
   displayState (resetGame sys) =
     \<lparr> displayState.score = 0, displayState.lives = 3, displayState.level = 1,
       displayState.gameOver = False, displayState.levelComplete = False,
       displayState.started = True \<rparr>"
proof -
  have "length (generateWave 1) = 5"
    using length_generateWave [of 1] by (simp add: waveBase_def)
  then show ?thesis
    by (simp add: resetGame_def initWave_def Let_def game_constants)
qed

text \<open>
  Two calls on the initial state of the component.
\<close>

theorem resetGame_idempotent_witness:
  "resetGame (resetGame initialShooter) = resetGame initialShooter \<and>
   gameState.lives (gameStateRef (resetGame (resetGame initialShooter))) = 3 \<and>
   mode (resetGame (resetGame initialShooter)) = Playing"
  using resetGame_idempotent [of initialShooter] by (simp add: mode_def)

subsection \<open>Formation bounce (C7)\<close>

text \<open>
  Claim C7. In a playing frame, let \<open>adv\<close> be the enemies after the advance step (each
  active enemy moved by \<open>speed * direction\<close>) and let \<open>hitEdge\<close> say that some active
  enemy of \<open>adv\<close> has \<open>x \<le> 10\<close> or \<open>x \<ge> CANVAS_WIDTH - ENEMY_WIDTH - 10\<close>. If \<open>hitEdge\<close>
  holds, every enemy that was active has, after the frame, its direction negated and its
  \<open>y\<close> increased by exactly 20; otherwise, and for every inactive enemy, direction and
  \<open>y\<close> are unchanged by the frame.
\<close>

theorem formation_bounce:
  assumes "mode s = Playing" and "i < length (enemies (gameStateRef s))"
  shows "let es = enemies (gameStateRef s);
             adv = fst (advanceEnemies es False);
             res = enemies (gameStateRef (gameLoop now s));
             hitEdge = (\<exists>e \<in> set adv. enemy.active e \<and>
                          (entity.x e \<le> 10 \<or> entity.x e \<ge> CANVAS_WIDTH - ENEMY_WIDTH - 10))
         in length adv = length es \<and> length res = length es \<and>
            enemy.active (adv ! i) = enemy.active (es ! i) \<and>
            entity.x (adv ! i) =
              (if enemy.active (es ! i) then entity.x (es ! i) + speed (es ! i) * direction (es ! i)
               else entity.x (es ! i)) \<and>
            entity.x (res ! i) = entity.x (adv ! i) \<and>
            (if hitEdge \<and> enemy.active (es ! i)
             then direction (res ! i) = - direction (es ! i) \<and> entity.y (res ! i) = entity.y (es ! i) + 20
             else direction (res ! i) = direction (es ! i) \<and> entity.y (res ! i) = entity.y (es ! i))"
proof -
  define es where "es = enemies (gameStateRef s)"
  define adv where "adv = fst (advanceEnemies es False)"
  define res where "res = enemies (gameStateRef (gameLoop now s))"
  define hitEdge where "hitEdge \<longleftrightarrow> (\<exists>e \<in> set adv. onEdge e)"
  have i: "i < length es" using assms(2) by (simp add: es_def)
  have a: "list_all2 advanced es adv"
    using advanceEnemies_spec [of es False] by (simp add: adv_def)
  then have la: "length adv = length es" and ai: "advanced (es ! i) (adv ! i)"
    using i by (simp_all add: list_all2_conv_all_nth)
  have m: "moveEnemies es = (if hitEdge then map bounce adv else adv)"
    by (simp add: moveEnemies_spec adv_def hitEdge_def)
  have k: "list_all2 enemyKept (moveEnemies es) res"
    using enemies_playingFrame [of s now] assms(1) by (simp add: gameLoop_playing es_def res_def)
  have lm: "length (moveEnemies es) = length es" by (simp add: m la)
  from k have lr: "length res = length es" and ki: "enemyKept (moveEnemies es ! i) (res ! i)"
    using i lm by (simp_all add: list_all2_conv_all_nth)
  have mi: "moveEnemies es ! i = (if hitEdge then bounce (adv ! i) else adv ! i)"
    using i la by (simp add: m)
  have body: "length adv = length es \<and> length res = length es \<and>
            enemy.active (adv ! i) = enemy.active (es ! i) \<and>
            entity.x (adv ! i) =
              (if enemy.active (es ! i) then entity.x (es ! i) + speed (es ! i) * direction (es ! i)
               else entity.x (es ! i)) \<and>
            entity.x (res ! i) = entity.x (adv ! i) \<and>
            (if hitEdge \<and> enemy.active (es ! i)
             then direction (res ! i) = - direction (es ! i) \<and> entity.y (res ! i) = entity.y (es ! i) + 20
             else direction (res ! i) = direction (es ! i) \<and> entity.y (res ! i) = entity.y (es ! i))"
    using la lr ai ki
    by (auto simp add: mi advanced_def enemyKept_def bounce_def)
  show ?thesis
    using body
    unfolding Let_def es_def [symmetric] adv_def [symmetric] res_def [symmetric] hitEdge_def onEdge_def
    by simp
qed

text \<open>
  A formation of two enemies moving left, the first of which reaches the left edge: the
  second enemy turns and drops by 20 in the same frame.
\<close>

theorem formation_bounce_witness:
  "mode bounceState = Playing \<and> (1::nat) < length (enemies (gameStateRef bounceState)) \<and>
   direction (enemies (gameStateRef bounceState) ! 1) = - 1 \<and>
   entity.y (enemies (gameStateRef bounceState) ! 1) = 110 \<and>
   direction (enemies (gameStateRef (gameLoop 0 bounceState)) ! 1) = 1 \<and>
   entity.y (enemies (gameStateRef (gameLoop 0 bounceState)) ! 1) = 130"
proof -
  have m: "mode bounceState = Playing"
    by (simp add: bounceState_def mode_def start_defs)
  have i: "(1::nat) < length (enemies (gameStateRef bounceState))"
    by (simp add: bounceState_def start_defs)
  show ?thesis
    using formation_bounce [OF m i, of 0] m
    by (simp add: Let_def bounceState_def start_defs game_constants)
qed

subsection \<open>Both move keys held (C8)\<close>

text \<open>
  Claim C8, as stated, fails. With both arrow keys held and the player at 280 the input
  step leaves \<open>player.x\<close> at 280: that is \<open>280 - 8 + 8\<close>, the sum of both deltas, and not
  288, the value that the update applied last would give on its own.
\<close>

theorem both_keys_counterexample:
  "''ArrowLeft'' \<in> keysRef bothHeldState \<and> ''ArrowRight'' \<in> keysRef bothHeldState \<and>
   playerX (handleInput 0 bothHeldState) = playerX bothHeldState + (- PLAYER_SPEED) + PLAYER_SPEED \<and>
   playerX (handleInput 0 bothHeldState) \<noteq> playerX (inputRight bothHeldState)"
  by (simp add: playerX_def bothHeldState_def start_defs handleInput_def inputFire_def inputLeft_def
        inputRight_def game_constants)

text \<open>
  Claim C8, amended. When a move-left key and a move-right key are both held, the two
  clamped updates are applied in the order left, then right, the second to the result of
  the first: \<open>player.x\<close> becomes \<open>min 550 (max 10 (x - 8) + 8)\<close>, which is
  \<open>min 550 (max 18 x)\<close>. For \<open>x\<close> in \<open>[18, 550]\<close> the two deltas cancel and \<open>x\<close> is
  unchanged (the net effect is their sum); for \<open>x \<le> 18\<close> the result is 18. The input
  step is a total function: no input is an error.
\<close>

theorem both_keys_left_then_right:
  assumes "''ArrowLeft'' \<in> keysRef s \<or> ''a'' \<in> keysRef s"
    and "''ArrowRight'' \<in> keysRef s \<or> ''d'' \<in> keysRef s"
  shows "playerX (handleInput now s) = playerX (inputRight (inputLeft s)) \<and>
         playerX (handleInput now s) =
           min (CANVAS_WIDTH - PLAYER_WIDTH - 10) (max 10 (playerX s - PLAYER_SPEED) + PLAYER_SPEED) \<and>
         playerX (handleInput now s) = min 550 (max 18 (playerX s)) \<and>
         (18 \<le> playerX s \<and> playerX s \<le> 550 \<longrightarrow>
            playerX (handleInput now s) = playerX s + (- PLAYER_SPEED) + PLAYER_SPEED) \<and>
         (playerX s \<le> 18 \<longrightarrow> playerX (handleInput now s) = 18)"
  using assms
  by (auto simp add: playerX_def handleInput_def inputFire_def inputLeft_def inputRight_def game_constants)

text \<open>
  Both arrow keys held with the player at 280.
\<close>

theorem both_keys_left_then_right_witness:
  "(''ArrowLeft'' \<in> keysRef bothHeldState \<or> ''a'' \<in> keysRef bothHeldState) \<and>
   (''ArrowRight'' \<in> keysRef bothHeldState \<or> ''d'' \<in> keysRef bothHeldState) \<and>
   18 \<le> playerX bothHeldState \<and> playerX bothHeldState \<le> 550 \<and>
   playerX (handleInput 0 bothHeldState) = 280"
proof -
  have k: "''ArrowLeft'' \<in> keysRef bothHeldState \<or> ''a'' \<in> keysRef bothHeldState"
    "''ArrowRight'' \<in> keysRef bothHeldState \<or> ''d'' \<in> keysRef bothHeldState"
    by (simp_all add: bothHeldState_def)
  have p: "playerX bothHeldState = 280"
    by (simp add: playerX_def bothHeldState_def start_defs game_constants)
  show ?thesis
    using both_keys_left_then_right [OF k, of 0] k by (simp add: p)
qed

subsection \<open>Level transition (C9)\<close>

text \<open>
  Claim C9. Every reachable state is \<open>consistent\<close>. For a consistent state in mode
  \<open>Playing\<close>, a frame at whose end no enemy is active sets \<open>levelComplete\<close>, enters mode
  \<open>LevelTransition\<close> and sets \<open>transitionTimer\<close> to 2000. Every frame in mode
  \<open>LevelTransition\<close> lowers the timer by exactly 16. While the timer stays positive the
  mode, the level and the enemies are unchanged. On the frame that brings the timer to 0 or
  below, the level grows by exactly 1, the enemies become the generated wave of the new
  level (of \<open>4 + floor (level * 1.5)\<close> enemies) and the mode is \<open>Playing\<close> again. From a
  timer of 2000 this happens on the 125th frame and on no earlier one.
\<close>

theorem level_transition:
  "consistent (run evs initialShooter) \<and>
   (consistent s \<and> mode s = Playing \<and>
    length (filter enemy.active (enemies (gameStateRef (gameLoop now s)))) = 0 \<longrightarrow>
      gameState.levelComplete (gameStateRef (gameLoop now s)) \<and>
      mode (gameLoop now s) = LevelTransition \<and>
      transitionTimer (gameStateRef (gameLoop now s)) = 2000) \<and>
   (mode s = LevelTransition \<longrightarrow>
      transitionTimer (gameStateRef (gameLoop now s)) = transitionTimer (gameStateRef s) - 16) \<and>
   (mode s = LevelTransition \<and> 0 < transitionTimer (gameStateRef s) - 16 \<longrightarrow>
      mode (gameLoop now s) = LevelTransition \<and>
      gameState.level (gameStateRef (gameLoop now s)) = gameState.level (gameStateRef s) \<and>
      enemies (gameStateRef (gameLoop now s)) = enemies (gameStateRef s)) \<and>
   (mode s = LevelTransition \<and> transitionTimer (gameStateRef s) - 16 \<le> 0 \<longrightarrow>
      gameState.level (gameStateRef (gameLoop now s)) = gameState.level (gameStateRef s) + 1 \<and>
      enemies (gameStateRef (gameLoop now s)) =
        map spawnEnemy (generateWave (gameState.level (gameStateRef (gameLoop now s)))) \<and>
      (0 \<le> gameState.level (gameStateRef s) \<longrightarrow>
         int (length (enemies (gameStateRef (gameLoop now s)))) =
           4 + \<lfloor>gameState.level (gameStateRef (gameLoop now s)) * 1.5\<rfloor>) \<and>
      mode (gameLoop now s) = Playing) \<and>
   (mode s = LevelTransition \<and> transitionTimer (gameStateRef s) = 2000 \<longrightarrow>
      (length nows < 125 \<longrightarrow>
         mode (run (map Frame nows) s) = LevelTransition \<and>
         gameState.level (gameStateRef (run (map Frame nows) s)) = gameState.level (gameStateRef s)) \<and>
      (length nows = 125 \<longrightarrow>
         mode (run (map Frame nows) s) = Playing \<and>
         gameState.level (gameStateRef (run (map Frame nows) s)) = gameState.level (gameStateRef s) + 1))"
proof -
  have p1: "consistent s \<and> mode s = Playing \<and>
    length (filter enemy.active (enemies (gameStateRef (gameLoop now s)))) = 0 \<longrightarrow>
      gameState.levelComplete (gameStateRef (gameLoop now s)) \<and>
      mode (gameLoop now s) = LevelTransition \<and>
      transitionTimer (gameStateRef (gameLoop now s)) = 2000"
    using wave_cleared by blast
  have p2: "mode s = LevelTransition \<longrightarrow>
      transitionTimer (gameStateRef (gameLoop now s)) = transitionTimer (gameStateRef s) - 16"
    by (simp add: gameLoop_transition transitionFrame_def initWave_def Let_def)
  have p3: "mode s = LevelTransition \<and> 0 < transitionTimer (gameStateRef s) - 16 \<longrightarrow>
      mode (gameLoop now s) = LevelTransition \<and>
      gameState.level (gameStateRef (gameLoop now s)) = gameState.level (gameStateRef s) \<and>
      enemies (gameStateRef (gameLoop now s)) = enemies (gameStateRef s)"
    by (auto simp add: transition_waiting) (simp add: mode_LevelTransition_iff)
  have p4: "mode s = LevelTransition \<and> transitionTimer (gameStateRef s) - 16 \<le> 0 \<longrightarrow>
      gameState.level (gameStateRef (gameLoop now s)) = gameState.level (gameStateRef s) + 1 \<and>
      enemies (gameStateRef (gameLoop now s)) =
        map spawnEnemy (generateWave (gameState.level (gameStateRef (gameLoop now s)))) \<and>
      (0 \<le> gameState.level (gameStateRef s) \<longrightarrow>
         int (length (enemies (gameStateRef (gameLoop now s)))) =
           4 + \<lfloor>gameState.level (gameStateRef (gameLoop now s)) * 1.5\<rfloor>) \<and>
      mode (gameLoop now s) = Playing"
  proof (intro impI, elim conjE)
    assume m: "mode s = LevelTransition" and t: "transitionTimer (gameStateRef s) - 16 \<le> 0"
    note d = transition_done [OF m t, of now]
    have "int (length (enemies (gameStateRef (gameLoop now s)))) =
           4 + \<lfloor>gameState.level (gameStateRef (gameLoop now s)) * 1.5\<rfloor>"
      if "0 \<le> gameState.level (gameStateRef s)"
    proof -
      have l: "1 \<le> gameState.level (gameStateRef s) + 1" using that by simp
      have "5 \<le> waveBase (gameState.level (gameStateRef s) + 1)" using l by (rule waveBase_ge)
      then show ?thesis
        using length_generateWave [OF l] by (simp add: d waveBase_def)
    qed
    then show "gameState.level (gameStateRef (gameLoop now s)) = gameState.level (gameStateRef s) + 1 \<and>
      enemies (gameStateRef (gameLoop now s)) =
        map spawnEnemy (generateWave (gameState.level (gameStateRef (gameLoop now s)))) \<and>
      (0 \<le> gameState.level (gameStateRef s) \<longrightarrow>
         int (length (enemies (gameStateRef (gameLoop now s)))) =
           4 + \<lfloor>gameState.level (gameStateRef (gameLoop now s)) * 1.5\<rfloor>) \<and>
      mode (gameLoop now s) = Playing"
      using d by simp
  qed
  have p5: "mode s = LevelTransition \<and> transitionTimer (gameStateRef s) = 2000 \<longrightarrow>
      (length nows < 125 \<longrightarrow>
         mode (run (map Frame nows) s) = LevelTransition \<and>
         gameState.level (gameStateRef (run (map Frame nows) s)) = gameState.level (gameStateRef s)) \<and>
      (length nows = 125 \<longrightarrow>
         mode (run (map Frame nows) s) = Playing \<and>
         gameState.level (gameStateRef (run (map Frame nows) s)) = gameState.level (gameStateRef s) + 1)"
  proof (intro impI, elim conjE)
    assume m: "mode s = LevelTransition" and t: "transitionTimer (gameStateRef s) = 2000"
    have waiting: "run (map Frame ns) s =
        s\<lparr>gameStateRef := (gameStateRef s)\<lparr>transitionTimer := 2000 - 16 * real (length ns)\<rparr>\<rparr>"
      if "length ns < 125" for ns
    proof -
      have "16 * real (length ns) < transitionTimer (gameStateRef s)"
        using that t by simp
      from transition_countdown [OF m this] show ?thesis by (simp add: t)
    qed
    have a: "mode (run (map Frame nows) s) = LevelTransition \<and>
         gameState.level (gameStateRef (run (map Frame nows) s)) = gameState.level (gameStateRef s)"
      if "length nows < 125"
      using m by (simp add: waiting [OF that] mode_LevelTransition_iff)
    have b: "mode (run (map Frame nows) s) = Playing \<and>
         gameState.level (gameStateRef (run (map Frame nows) s)) = gameState.level (gameStateRef s) + 1"
      if l: "length nows = 125"
    proof -
      from l obtain ns n where ns: "nows = ns @ [n]" and ln: "length ns = 124"
        by (cases nows rule: rev_cases) auto
      define s1 where "s1 = run (map Frame ns) s"
      have s1: "s1 = s\<lparr>gameStateRef := (gameStateRef s)\<lparr>transitionTimer := 16\<rparr>\<rparr>"
        unfolding s1_def using waiting [of ns] ln by simp
      have m1: "mode s1 = LevelTransition" using m by (simp add: s1 mode_LevelTransition_iff)
      have t1: "transitionTimer (gameStateRef s1) - 16 \<le> 0" by (simp add: s1)
      have r: "run (map Frame nows) s = gameLoop n s1"
        by (simp add: ns run_append s1_def)
      show ?thesis
        using transition_done(2,4) [OF m1 t1, of n] by (simp add: r) (simp add: s1)
    qed
    from a b show "(length nows < 125 \<longrightarrow>
         mode (run (map Frame nows) s) = LevelTransition \<and>
         gameState.level (gameStateRef (run (map Frame nows) s)) = gameState.level (gameStateRef s)) \<and>
      (length nows = 125 \<longrightarrow>
         mode (run (map Frame nows) s) = Playing \<and>
         gameState.level (gameStateRef (run (map Frame nows) s)) = gameState.level (gameStateRef s) + 1)"
      by blast
  qed
  from consistent_reachable [of evs] p1 p2 p3 p4 p5 show ?thesis by blast
qed

text \<open>
  A started game with no enemies enters the transition on its first frame and reaches
  level 2 after 125 more frames; the last frame of a transition from level 1 generates the
  7 enemies of level 2.
\<close>

theorem level_transition_witness:
  "consistent startedShooter \<and> mode startedShooter = Playing \<and>
   length (filter enemy.active (enemies (gameStateRef (gameLoop 0 startedShooter)))) = 0 \<and>
   gameState.levelComplete (gameStateRef (gameLoop 0 startedShooter)) \<and>
   mode (gameLoop 0 startedShooter) = LevelTransition \<and>
   transitionTimer (gameStateRef (gameLoop 0 startedShooter)) = 2000 \<and>
   mode (run (map Frame (replicate 125 0)) (gameLoop 0 startedShooter)) = Playing \<and>
   gameState.level (gameStateRef (run (map Frame (replicate 125 0)) (gameLoop 0 startedShooter))) = 2 \<and>
   mode lastTransitionFrame = LevelTransition \<and>
   transitionTimer (gameStateRef lastTransitionFrame) - 16 \<le> 0 \<and>
   gameState.level (gameStateRef (gameLoop 0 lastTransitionFrame)) = 2 \<and>
   length (enemies (gameStateRef (gameLoop 0 lastTransitionFrame))) = 7 \<and>
   mode (gameLoop 0 lastTransitionFrame) = Playing"
proof -
  have c: "consistent startedShooter"
    by (simp add: consistent_def settled_def enemiesWithin_def start_defs game_constants)
  have m: "mode startedShooter = Playing"
    by (simp add: mode_def start_defs)
  have e: "enemies (gameStateRef (gameLoop 0 startedShooter)) = []"
    by (simp add: start_defs frame_defs game_constants)
  have l: "gameState.level (gameStateRef (gameLoop 0 startedShooter)) = 1"
    by (simp add: start_defs frame_defs game_constants)
  have first: "gameState.levelComplete (gameStateRef (gameLoop 0 startedShooter)) \<and>
     mode (gameLoop 0 startedShooter) = LevelTransition \<and>
     transitionTimer (gameStateRef (gameLoop 0 startedShooter)) = 2000"
    using level_transition [of "[]" startedShooter 0 "[]"] c m e by simp
  have later: "mode (run (map Frame (replicate 125 0)) (gameLoop 0 startedShooter)) = Playing \<and>
     gameState.level (gameStateRef (run (map Frame (replicate 125 0)) (gameLoop 0 startedShooter))) = 2"
    using level_transition [of "[]" "gameLoop 0 startedShooter" 0 "replicate 125 0"] first l by simp
  have m2: "mode lastTransitionFrame = LevelTransition"
    and t2: "transitionTimer (gameStateRef lastTransitionFrame) - 16 \<le> 0"
    and l2: "gameState.level (gameStateRef lastTransitionFrame) = 1"
    by (simp_all add: lastTransitionFrame_def mode_def start_defs)
  have l2': "0 \<le> gameState.level (gameStateRef lastTransitionFrame)"
    by (simp add: l2)
  have inst: "gameState.level (gameStateRef (gameLoop 0 lastTransitionFrame)) =
       gameState.level (gameStateRef lastTransitionFrame) + 1 \<and>
     int (length (enemies (gameStateRef (gameLoop 0 lastTransitionFrame)))) =
       4 + \<lfloor>gameState.level (gameStateRef (gameLoop 0 lastTransitionFrame)) * 1.5\<rfloor> \<and>
     mode (gameLoop 0 lastTransitionFrame) = Playing"
    using level_transition [of "[]" lastTransitionFrame 0 "[]"] m2 t2 l2' by blast
  then have lv: "gameState.level (gameStateRef (gameLoop 0 lastTransitionFrame)) = 2"
    by (simp add: l2)
  have "int (length (enemies (gameStateRef (gameLoop 0 lastTransitionFrame)))) = 7"
    using inst unfolding lv by simp
  then have "length (enemies (gameStateRef (gameLoop 0 lastTransitionFrame))) = 7"
    by linarith
  with inst lv have last: "gameState.level (gameStateRef (gameLoop 0 lastTransitionFrame)) = 2 \<and>
     length (enemies (gameStateRef (gameLoop 0 lastTransitionFrame))) = 7 \<and>
     mode (gameLoop 0 lastTransitionFrame) = Playing"
    by simp
  show ?thesis
    using c m e first later m2 t2 last by simp
qed

subsection \<open>Collision test (C10)\<close>

text \<open>
  Claim C10. The bounding-box test \<open>checkCollision\<close> is symmetric: for all entities
  \<open>a\<close> and \<open>b\<close> (player, bullets or enemies), \<open>checkCollision a b\<close> and
  \<open>checkCollision b a\<close> give the same answer.
\<close>

theorem checkCollision_symmetric:
  "checkCollision a b = checkCollision b a"
  unfolding checkCollision_def by auto

text \<open>
  The player and an enemy placed on it collide, in either order of the arguments.
\<close>

theorem checkCollision_symmetric_witness:
  "checkCollision (player (gameStateRef startedShooter)) rammingEnemy \<and>
   checkCollision rammingEnemy (player (gameStateRef startedShooter))"
proof -
  have "checkCollision (player (gameStateRef startedShooter)) rammingEnemy"
    by (simp add: checkCollision_def rammingEnemy_def start_defs game_constants)
  then show ?thesis
    using checkCollision_symmetric [of "player (gameStateRef startedShooter)" rammingEnemy] by simp
qed

end
